theory Spec2Isabelle
  imports Main
begin

section \<open>The grading harness \<^verbatim>\<open>script/grade.cjs\<close>\<close>

text \<open>
  A shallow embedding of the autograder script: the timed fetch, the launcher of the
  student application, the discovery of its port, the five probe groups and the
  aggregation of their scores. JavaScript numbers that hold scores are integers here;
  every effect of the script (a request, a timer, a spawned process, a signal, a file
  written) is an event appended to an explicit trace.
\<close>

subsection \<open>Scores\<close>

text \<open>A note of a score record (the field \<^verbatim>\<open>notes\<close> of the script, \<open>todoNotes\<close> here).\<close>

datatype annotation = OK string | WARN string | X string | Plain string

record TodoScore =
  completeness :: int
  correctness :: int
  quality :: int
  todoNotes :: "annotation list"

definition makeTodoScore :: TodoScore where
  "makeTodoScore = \<lparr>completeness = 0, correctness = 0, quality = 0, todoNotes = []\<rparr>"

definition clamp :: "int \<Rightarrow> int \<Rightarrow> int \<Rightarrow> int" where
  "clamp n a b = max a (min b n)"

definition bandPoints :: "TodoScore \<Rightarrow> int" where
  "bandPoints s =
     clamp (completeness s) 0 8 + clamp (correctness s) 0 4 + clamp (quality s) 0 4"

text \<open>\<^verbatim>\<open>pushOK\<close>, \<^verbatim>\<open>pushWARN\<close> and \<^verbatim>\<open>pushX\<close> prefix the message with a mark; the mark is
  the constructor of the note.\<close>

definition pushOK :: "TodoScore \<Rightarrow> string \<Rightarrow> TodoScore" where
  "pushOK s msg = s\<lparr>todoNotes := todoNotes s @ [OK msg]\<rparr>"

definition pushWARN :: "TodoScore \<Rightarrow> string \<Rightarrow> TodoScore" where
  "pushWARN s msg = s\<lparr>todoNotes := todoNotes s @ [WARN msg]\<rparr>"

definition pushX :: "TodoScore \<Rightarrow> string \<Rightarrow> TodoScore" where
  "pushX s msg = s\<lparr>todoNotes := todoNotes s @ [X msg]\<rparr>"

definition pushPlain :: "TodoScore \<Rightarrow> string \<Rightarrow> TodoScore" where
  "pushPlain s msg = s\<lparr>todoNotes := todoNotes s @ [Plain msg]\<rparr>"

text \<open>Lines 367 to 369 of the main function: the sum of the five group totals and the
  floor of 60 applied when some group has points.\<close>

definition rawLabPoints :: "int \<Rightarrow> int \<Rightarrow> int \<Rightarrow> int \<Rightarrow> int \<Rightarrow> int" where
  "rawLabPoints p1 p2 p3 p4 p5 = p1 + p2 + p3 + p4 + p5"

definition someProgress :: "int \<Rightarrow> int \<Rightarrow> int \<Rightarrow> int \<Rightarrow> int \<Rightarrow> bool" where
  "someProgress p1 p2 p3 p4 p5 = list_ex (\<lambda>x. x > 0) [p1, p2, p3, p4, p5]"

definition labPoints :: "int \<Rightarrow> int \<Rightarrow> int \<Rightarrow> int \<Rightarrow> int \<Rightarrow> int" where
  "labPoints p1 p2 p3 p4 p5 =
     (let lab = rawLabPoints p1 p2 p3 p4 p5
      in if someProgress p1 p2 p3 p4 p5 \<and> lab < 60 then 60 else lab)"

subsection \<open>Values parsed from JSON\<close>

text \<open>
  What \<^verbatim>\<open>JSON.parse\<close> and \<^verbatim>\<open>res.json()\<close> return. An object is the list of its
  keys with their values, each key once (the parser keeps the last of equal keys).
  Numbers are integers here: the script only tests a number for being non-zero.
\<close>

datatype json =
  JNull | JBool bool | JNum int | JStr string | JArr "json list" | JObj "(string \<times> json) list"

text \<open>The truth value JavaScript gives a parsed value in \<^verbatim>\<open>j && ...\<close>.\<close>

fun truthy :: "json \<Rightarrow> bool" where
  "truthy JNull = False"
| "truthy (JBool b) = b"
| "truthy (JNum n) = (n \<noteq> 0)"
| "truthy (JStr s) = (s \<noteq> [])"
| "truthy (JArr xs) = True"
| "truthy (JObj kvs) = True"

text \<open>
  The property read \<^verbatim>\<open>j.k\<close> of a value other than \<^verbatim>\<open>null\<close>; \<open>None\<close> is
  \<^verbatim>\<open>undefined\<close>. None of the keys the script reads (\<^verbatim>\<open>ok\<close>, \<^verbatim>\<open>msg\<close>, \<^verbatim>\<open>error\<close>,
  \<^verbatim>\<open>fullName\<close>, \<^verbatim>\<open>scripts\<close>, \<^verbatim>\<open>start\<close>) is a property of a string, a number, a
  boolean or an array, so only an object can answer.
\<close>

fun getProp :: "json \<Rightarrow> string \<Rightarrow> json option" where
  "getProp (JObj kvs) k = map_of kvs k"
| "getProp j k = None"

text \<open>
  \<^verbatim>\<open>"k" in j\<close>. The script evaluates it only after \<^verbatim>\<open>j.ok === true\<close> held, hence on
  an object; on a primitive JavaScript would raise, and that case is never reached.
\<close>

fun hasKey :: "string \<Rightarrow> json \<Rightarrow> bool" where
  "hasKey k (JObj kvs) = (map_of kvs k \<noteq> None)"
| "hasKey k j = False"

definition isString :: "json option \<Rightarrow> bool" where
  "isString v = (case v of Some (JStr s) \<Rightarrow> True | _ \<Rightarrow> False)"

subsection \<open>Decimal rendering of a number in a template string\<close>

fun show_nat :: "nat \<Rightarrow> string" where
  "show_nat n =
     (if n < 10 then [''0123456789'' ! n]
      else show_nat (n div 10) @ [''0123456789'' ! (n mod 10)])"

declare show_nat.simps [simp del]

subsection \<open>Effects and the network\<close>

text \<open>Every effect of the script is recorded, in order, in a trace.\<close>

datatype event =
  SetTimeout nat
| Request string
| Abort
| ClearTimeout
| Chdir string
| Mkdir string
| Spawn string "string list"
| Kill int
| WriteFile string
| AppendFile string
| ConsoleLog
| ConsoleError

type_synonym trace = "event list"

text \<open>
  A response of the platform's \<^verbatim>\<open>fetch\<close>: its status, and what
  \<^verbatim>\<open>res.clone().json()\<close> gives (\<open>None\<close> when it raises, the body not being JSON).
  \<^verbatim>\<open>res.ok\<close> is the platform's: the status is in 200..299.
\<close>

record response =
  status :: nat
  json_body :: "json option"

definition ok :: "response \<Rightarrow> bool" where
  "ok res = (200 \<le> status res \<and> status res \<le> 299)"

text \<open>
  How the platform's \<^verbatim>\<open>fetch\<close> ends when left alone: it settles after some
  milliseconds, with a response or with a rejection, or it never settles. The network
  is a snapshot: one behaviour for a URL and its options.
\<close>

datatype failure = ConnectionRefused | DnsFailure | ProtocolError | AbortError

datatype behaviour = Settles nat "failure + response" | Hangs

type_synonym opts = "(string \<times> string) list"

type_synonym network = "string \<Rightarrow> opts \<Rightarrow> behaviour"

definition REQ_TIMEOUT_MS :: nat where
  "REQ_TIMEOUT_MS = 3500"

definition STARTUP_TIMEOUT_MS :: nat where
  "STARTUP_TIMEOUT_MS = 12000"

definition SCAN_PORTS :: "nat list" where
  "SCAN_PORTS = map (\<lambda>i. 3000 + i) [0..<24]"

text \<open>
  \<^verbatim>\<open>await fetch(url, { ...opts, signal: controller.signal })\<close> with the timer of
  \<^verbatim>\<open>safeFetch\<close> armed: a request that settles strictly before the timer gives its
  own outcome; otherwise (also when both fall on the same millisecond) the timer's
  callback runs \<^verbatim>\<open>controller.abort()\<close> and the request rejects with an abort error.
  \<open>Inl\<close> is the exception the \<^verbatim>\<open>await\<close> raises.
\<close>

definition awaitFetch ::
  "network \<Rightarrow> string \<Rightarrow> opts \<Rightarrow> nat \<Rightarrow> trace \<Rightarrow> (failure + response) \<times> trace" where
  "awaitFetch nw url os to tr =
     (case nw url os of
        Settles ms out \<Rightarrow>
          if ms < to then (out, tr @ [Request url])
          else (Inl AbortError, tr @ [Request url, Abort])
      | Hangs \<Rightarrow> (Inl AbortError, tr @ [Request url, Abort]))"

text \<open>Lines 33 to 44: \<^verbatim>\<open>try { return await fetch } catch { return null } finally
  { clearTimeout }\<close>.\<close>

definition safeFetch ::
  "network \<Rightarrow> string \<Rightarrow> opts \<Rightarrow> nat \<Rightarrow> trace \<Rightarrow> response option \<times> trace" where
  "safeFetch nw url os to tr =
     (case awaitFetch nw url os to (tr @ [SetTimeout to]) of
        (Inr res, tr1) \<Rightarrow> (Some res, tr1 @ [ClearTimeout])
      | (Inl e, tr1) \<Rightarrow> (None, tr1 @ [ClearTimeout]))"

subsection \<open>The environment of a run\<close>

text \<open>
  What the operating system answers: the working directory, the files that exist, what
  a file parses to, whether a directory can be entered or created, what a spawned
  process let the script observe while it waited for the start (its process id, absent
  when the spawn failed, the two captured buffers, and the port number that the log
  patterns of lines 145 to 161 matched, if any), whether a file can be written, whether
  a signal is delivered. The file system is a snapshot: an existence test has one answer
  in a run. \<open>LAB_DIR\<close> is the script's variable of that name, which the launcher
  reads; the module-level code sets it.
\<close>

record proc =
  proc_pid :: "nat option"
  proc_stdout :: string
  proc_stderr :: string
  proc_port :: "nat option"

record env =
  REPO_ROOT :: string
  LAB_DIR :: string
  chdirOk :: "string \<Rightarrow> bool"
  mkdirOk :: "string \<Rightarrow> bool"
  execPath :: string
  platform :: string
  existsSync :: "string \<Rightarrow> bool"
  parsedFile :: "string \<Rightarrow> json option"
  spawned :: "string \<Rightarrow> string list \<Rightarrow> proc"
  net :: network
  isLate :: bool
  writable :: "string \<Rightarrow> bool"
  delivered :: "int \<Rightarrow> bool"
  GITHUB_STEP_SUMMARY :: "string option"

text \<open>\<^verbatim>\<open>path.join\<close> of a directory and a relative name without dot segments.\<close>

definition path_join :: "string \<Rightarrow> string \<Rightarrow> string" where
  "path_join dir name = dir @ ''/'' @ name"

subsection \<open>Starting the student application\<close>

definition ENTRY_CANDIDATES :: "string list" where
  "ENTRY_CANDIDATES =
     [''server.js'', ''app.js'', ''index.js'', ''main.js'',
      ''src/server.js'', ''src/app.js'', ''src/index.js'']"

record child =
  pid :: "nat option"

record startInfo =
  child :: "child option"
  stdoutBuf :: string
  stderrBuf :: string
  detectedPort :: "nat option"
  usedCommand :: string

text \<open>
  Lines 102 to 109. \<open>parsedFile\<close> is \<open>None\<close> when reading or parsing raises, which
  the \<^verbatim>\<open>catch\<close> turns into \<^verbatim>\<open>false\<close>; so does the read of \<^verbatim>\<open>pkg.scripts\<close> on
  \<^verbatim>\<open>null\<close>.
\<close>

definition hasStart :: "env \<Rightarrow> bool" where
  "hasStart e =
     (let pkgPath = path_join (LAB_DIR e) ''package.json'';
          hasPkg = existsSync e pkgPath
      in hasPkg \<and>
         (case parsedFile e pkgPath of
            None \<Rightarrow> False
          | Some JNull \<Rightarrow> False
          | Some pkg \<Rightarrow>
              (case getProp pkg ''scripts'' of
                 None \<Rightarrow> False
               | Some scripts \<Rightarrow>
                   truthy scripts \<and>
                   (case getProp scripts ''start'' of
                      None \<Rightarrow> False
                    | Some start \<Rightarrow> truthy start))))"

text \<open>
  Lines 113 to 117 and 140 to 163 for a command that is spawned: the child, its
  listeners and the wait for a port in its output, given by what the environment lets
  the script observe.
\<close>

definition spawnAndWatch ::
  "env \<Rightarrow> string \<Rightarrow> string \<Rightarrow> string list \<Rightarrow> trace \<Rightarrow> startInfo \<times> trace" where
  "spawnAndWatch e used cmd args tr =
     (let p = spawned e cmd args
      in (\<lparr>child = Some \<lparr>pid = proc_pid p\<rparr>, stdoutBuf = proc_stdout p,
           stderrBuf = proc_stderr p, detectedPort = proc_port p, usedCommand = used\<rparr>,
          tr @ [Spawn cmd args]))"

text \<open>
  Lines 111 to 138: the choice among the strategies, from the three tests it reads: the
  entry found in the ranked list, whether a start script is declared, and whether
  \<^verbatim>\<open>server.js\<close> exists (a test without effect, read in the last branch only).
\<close>

definition launch ::
  "env \<Rightarrow> string option \<Rightarrow> bool \<Rightarrow> bool \<Rightarrow> trace \<Rightarrow> startInfo \<times> trace" where
  "launch e entry hasStartScript serverJsExists tr =
     (case entry of
        Some en \<Rightarrow>
          spawnAndWatch e (''node '' @ en) (execPath e) [path_join (LAB_DIR e) en] tr
      | None \<Rightarrow>
          if hasStartScript then
            spawnAndWatch e ''npm start''
              (if take 3 (platform e) = ''win'' then ''npm.cmd'' else ''npm'') [''start''] tr
          else if serverJsExists then
            spawnAndWatch e ''node server.js'' (execPath e)
              [path_join (LAB_DIR e) ''server.js''] tr
          else
            (\<lparr>child = None, stdoutBuf = [], stderrBuf = ''No entry file or npm start.'',
              detectedPort = None, usedCommand = ''(no entry found)''\<rparr>, tr))"

text \<open>Lines 97 to 164.\<close>

definition startStudentApp :: "env \<Rightarrow> trace \<Rightarrow> startInfo \<times> trace" where
  "startStudentApp e tr =
     (let entry = find (\<lambda>p. existsSync e (path_join (LAB_DIR e) p)) ENTRY_CANDIDATES
      in launch e entry (hasStart e) (existsSync e (path_join (LAB_DIR e) ''server.js'')) tr)"

subsection \<open>Finding the base URL\<close>

definition baseOf :: "nat \<Rightarrow> string" where
  "baseOf p = ''http://127.0.0.1:'' @ show_nat p"

text \<open>Lines 167 to 169. A detected port of 0 is falsy and is not pushed.\<close>

definition candidatesOf :: "nat option \<Rightarrow> nat list" where
  "candidatesOf dp =
     foldl (\<lambda>candidates p. if p \<in> set candidates then candidates else candidates @ [p])
       (case dp of None \<Rightarrow> [] | Some d \<Rightarrow> if d \<noteq> 0 then [d] else [])
       SCAN_PORTS"

text \<open>Lines 171 to 178: the loop over the candidates.\<close>

fun probePorts :: "network \<Rightarrow> nat list \<Rightarrow> trace \<Rightarrow> string option \<times> trace" where
  "probePorts nw [] tr = (None, tr)"
| "probePorts nw (p # ps) tr =
     (case safeFetch nw (baseOf p @ ''/'') [] REQ_TIMEOUT_MS tr of
        (Some res, tr1) \<Rightarrow>
          if ok res \<or> status res = 404 then (Some (baseOf p), tr1)
          else probePorts nw ps tr1
      | (None, tr1) \<Rightarrow> probePorts nw ps tr1)"

definition findBaseUrl :: "network \<Rightarrow> nat option \<Rightarrow> trace \<Rightarrow> string option \<times> trace" where
  "findBaseUrl nw dp tr = probePorts nw (candidatesOf dp) tr"

subsection \<open>The probe groups\<close>

text \<open>
  Each check starts from the zero score and follows the script statement by statement.
  The block of statements that scores one response is a function of the fetch result
  and the score so far; the \<^verbatim>\<open>try\<close> around \<^verbatim>\<open>res.clone().json()\<close> is the case
  distinction on \<open>json_body\<close>.
\<close>

text \<open>Lines 186 to 201.\<close>

definition rootBlock :: "response option \<Rightarrow> TodoScore \<Rightarrow> TodoScore" where
  "rootBlock fetched s =
     (case fetched of
        Some res \<Rightarrow>
          (let s = s\<lparr>completeness := 8\<rparr>;
               s = pushOK s ''Server responded on `/`.'';
               s = (if status res = 200
                    then pushOK (s\<lparr>correctness := 4\<rparr>) ''`/` returned 200.''
                    else pushWARN s (''`/` returned status '' @ show_nat (status res) @ ''.''))
           in case json_body res of
                Some j \<Rightarrow> pushOK (s\<lparr>quality := 4\<rparr>) ''`/` returned JSON.''
              | None \<Rightarrow> pushWARN s ''`/` did not return JSON.'')
      | None \<Rightarrow> pushX s ''No response from `/`.'')"

definition checkTodo1 :: "network \<Rightarrow> string \<Rightarrow> trace \<Rightarrow> TodoScore \<times> trace" where
  "checkTodo1 nw base tr =
     (let s = makeTodoScore;
          (res, tr1) = safeFetch nw (base @ ''/'') [] REQ_TIMEOUT_MS tr
      in (rootBlock res s, tr1))"

text \<open>The shapes the checks accept, as the script writes them.\<close>

definition echoSuccessShape :: "json \<Rightarrow> bool" where
  "echoSuccessShape j =
     (truthy j \<and> getProp j ''ok'' = Some (JBool True) \<and> hasKey ''name'' j \<and> hasKey ''age'' j
      \<and> isString (getProp j ''msg''))"

definition errorShape :: "json \<Rightarrow> bool" where
  "errorShape j =
     (truthy j \<and> getProp j ''ok'' = Some (JBool False) \<and> isString (getProp j ''error''))"

definition profileShape :: "json \<Rightarrow> bool" where
  "profileShape j =
     (truthy j \<and> getProp j ''ok'' = Some (JBool True) \<and> isString (getProp j ''fullName''))"

definition userShape :: "json \<Rightarrow> bool" where
  "userShape j = (truthy j \<and> getProp j ''ok'' = Some (JBool True) \<and> hasKey ''userId'' j)"

text \<open>Lines 210 to 223: the good case of \<^verbatim>\<open>/echo\<close>.\<close>

definition echoSuccessBlock :: "response option \<Rightarrow> TodoScore \<Rightarrow> TodoScore" where
  "echoSuccessBlock fetched s =
     (case fetched of
        Some res \<Rightarrow>
          (let s = s\<lparr>completeness := completeness s + 4\<rparr>;
               s = (if status res = 200
                    then pushOK (s\<lparr>correctness := correctness s + 2\<rparr>)
                           ''`/echo` success returned 200.''
                    else s)
           in case json_body res of
                Some j \<Rightarrow>
                  if echoSuccessShape j
                  then pushOK (s\<lparr>quality := quality s + 2\<rparr>)
                         ''`/echo` success JSON has ok/name/age/msg.''
                  else pushWARN s ''`/echo` success JSON shape differs (accepted).''
              | None \<Rightarrow> pushWARN s ''`/echo` success not JSON.'')
      | None \<Rightarrow> pushX s ''GET `/echo` not reachable.'')"

text \<open>Lines 227 to 240: the case of the missing parameter.\<close>

definition echoErrorBlock :: "response option \<Rightarrow> TodoScore \<Rightarrow> TodoScore" where
  "echoErrorBlock fetched s =
     (case fetched of
        Some res \<Rightarrow>
          (let s = s\<lparr>completeness := completeness s + 4\<rparr>;
               s = (if status res = 400
                    then pushOK (s\<lparr>correctness := correctness s + 2\<rparr>)
                           ''`/echo` error returned 400.''
                    else s)
           in case json_body res of
                Some j \<Rightarrow>
                  if errorShape j
                  then pushOK (s\<lparr>quality := quality s + 2\<rparr>)
                         ''`/echo` error JSON has ok:false + error.''
                  else pushWARN s ''`/echo` error JSON shape differs (accepted).''
              | None \<Rightarrow> pushWARN s ''`/echo` error not JSON.'')
      | None \<Rightarrow> pushX s ''GET `/echo` missing-param case not reachable.'')"

text \<open>Lines 242 to 244, and again 323 to 328: the three caps.\<close>

definition capBands :: "TodoScore \<Rightarrow> TodoScore" where
  "capBands s =
     (let s = s\<lparr>completeness := min 8 (completeness s)\<rparr>;
          s = s\<lparr>correctness := min 4 (correctness s)\<rparr>
      in s\<lparr>quality := min 4 (quality s)\<rparr>)"

definition checkTodo2 :: "network \<Rightarrow> string \<Rightarrow> trace \<Rightarrow> TodoScore \<times> trace" where
  "checkTodo2 nw base tr =
     (let s = makeTodoScore;
          (okRes, tr1) = safeFetch nw (base @ ''/echo?name=Ali&age=22'') [] REQ_TIMEOUT_MS tr;
          s = echoSuccessBlock okRes s;
          (bad, tr2) = safeFetch nw (base @ ''/echo?name=Ali'') [] REQ_TIMEOUT_MS tr1;
          s = echoErrorBlock bad s
      in (capBands s, tr2))"

text \<open>Lines 251 to 264.\<close>

definition profileBlock :: "response option \<Rightarrow> TodoScore \<Rightarrow> TodoScore" where
  "profileBlock fetched s =
     (case fetched of
        Some res \<Rightarrow>
          (let s = pushOK (s\<lparr>completeness := 8\<rparr>) ''`/profile/:first/:last` reachable.'';
               s = (if status res = 200
                    then pushOK (s\<lparr>correctness := 4\<rparr>) ''`/profile` returned 200.''
                    else s)
           in case json_body res of
                Some j \<Rightarrow>
                  if profileShape j
                  then pushOK (s\<lparr>quality := 4\<rparr>)
                         ''`/profile` JSON contains ok:true and fullName.''
                  else pushWARN s ''`/profile` JSON shape differs (accepted).''
              | None \<Rightarrow> pushWARN s ''`/profile` not JSON.'')
      | None \<Rightarrow> pushX s ''GET `/profile/:first/:last` not reachable.'')"

definition checkTodo3 :: "network \<Rightarrow> string \<Rightarrow> trace \<Rightarrow> TodoScore \<times> trace" where
  "checkTodo3 nw base tr =
     (let s = makeTodoScore;
          (res, tr1) = safeFetch nw (base @ ''/profile/Jack/Black'') [] REQ_TIMEOUT_MS tr
      in (profileBlock res s, tr1))"

text \<open>Lines 274 to 287: the valid id, scored on the fifth group.\<close>

definition validIdBlock :: "response option \<Rightarrow> TodoScore \<Rightarrow> TodoScore" where
  "validIdBlock fetched s5 =
     (case fetched of
        Some res \<Rightarrow>
          (let s5 = pushOK (s5\<lparr>completeness := completeness s5 + 8\<rparr>)
                      ''`/users/:userId` reachable with valid id.'';
               s5 = (if status res = 200
                     then pushOK (s5\<lparr>correctness := correctness s5 + 4\<rparr>)
                            ''`/users` valid returned 200.''
                     else s5)
           in case json_body res of
                Some j \<Rightarrow>
                  if userShape j
                  then pushOK (s5\<lparr>quality := quality s5 + 4\<rparr>)
                         ''`/users` success JSON contains ok:true and userId.''
                  else pushWARN s5 ''`/users` success JSON shape differs (accepted).''
              | None \<Rightarrow> pushWARN s5 ''`/users` success not JSON.'')
      | None \<Rightarrow> pushX s5 ''GET `/users/:userId` not reachable.'')"

text \<open>Lines 291 to 304: the id that is not a number, scored on the fourth group.\<close>

definition nonNumericBlock :: "response option \<Rightarrow> TodoScore \<Rightarrow> TodoScore" where
  "nonNumericBlock fetched s4 =
     (case fetched of
        Some res \<Rightarrow>
          (let s4 = s4\<lparr>completeness := completeness s4 + 4\<rparr>;
               s4 = (if status res = 400
                     then pushOK (s4\<lparr>correctness := correctness s4 + 2\<rparr>)
                            ''Param middleware rejected non-numeric id with 400.''
                     else s4)
           in case json_body res of
                Some j \<Rightarrow>
                  if errorShape j
                  then pushOK (s4\<lparr>quality := quality s4 + 2\<rparr>)
                         ''Error JSON includes ok:false + error.''
                  else pushWARN s4 ''Error JSON shape (non-numeric) differs (accepted).''
              | None \<Rightarrow> pushWARN s4 ''Error (non-numeric) not JSON.'')
      | None \<Rightarrow>
          pushX s4 ''`/users/abc` path not reachable (param middleware not observed).'')"

text \<open>Lines 308 to 321: the negative id, scored on the fourth group.\<close>

definition negativeBlock :: "response option \<Rightarrow> TodoScore \<Rightarrow> TodoScore" where
  "negativeBlock fetched s4 =
     (case fetched of
        Some res \<Rightarrow>
          (let s4 = s4\<lparr>completeness := completeness s4 + 4\<rparr>;
               s4 = (if status res = 400
                     then pushOK (s4\<lparr>correctness := correctness s4 + 2\<rparr>)
                            ''Param middleware rejected negative id with 400.''
                     else s4)
           in case json_body res of
                Some j \<Rightarrow>
                  if errorShape j
                  then pushOK (s4\<lparr>quality := quality s4 + 2\<rparr>)
                         ''Error JSON includes ok:false + error (negative).''
                  else pushWARN s4 ''Error JSON shape (negative) differs (accepted).''
              | None \<Rightarrow> pushWARN s4 ''Error (negative) not JSON.'')
      | None \<Rightarrow>
          pushX s4 ''`/users/-5` path not reachable (param middleware not observed).'')"

definition checkTodo4and5 ::
  "network \<Rightarrow> string \<Rightarrow> trace \<Rightarrow> (TodoScore \<times> TodoScore) \<times> trace" where
  "checkTodo4and5 nw base tr =
     (let s4 = makeTodoScore;
          s5 = makeTodoScore;
          (good, tr1) = safeFetch nw (base @ ''/users/42'') [] REQ_TIMEOUT_MS tr;
          s5 = validIdBlock good s5;
          (bad1, tr2) = safeFetch nw (base @ ''/users/abc'') [] REQ_TIMEOUT_MS tr1;
          s4 = nonNumericBlock bad1 s4;
          (bad2, tr3) = safeFetch nw (base @ ''/users/-5'') [] REQ_TIMEOUT_MS tr2;
          s4 = negativeBlock bad2 s4
      in ((capBands s4, capBands s5), tr3))"

subsection \<open>The main function\<close>

record scores =
  t1 :: TodoScore
  t2 :: TodoScore
  t3 :: TodoScore
  t4 :: TodoScore
  t5 :: TodoScore

text \<open>Lines 340 to 359: the five scores, probed only when a base URL was found (a
  string is truthy when it is not empty).\<close>

definition runChecks :: "network \<Rightarrow> string option \<Rightarrow> trace \<Rightarrow> scores \<times> trace" where
  "runChecks nw baseUrl tr =
     (case (case baseUrl of None \<Rightarrow> None | Some b \<Rightarrow> if b \<noteq> [] then Some b else None) of
        Some b \<Rightarrow>
          (let (s1, tr1) = checkTodo1 nw b tr;
               (s2, tr2) = checkTodo2 nw b tr1;
               (s3, tr3) = checkTodo3 nw b tr2;
               ((s4, s5), tr4) = checkTodo4and5 nw b tr3
           in (\<lparr>t1 = s1, t2 = s2, t3 = s3, t4 = s4, t5 = s5\<rparr>, tr4))
      | None \<Rightarrow>
          (\<lparr>t1 = pushPlain makeTodoScore ''Server not reachable; cannot run endpoint checks.'',
            t2 = pushPlain makeTodoScore ''Server not reachable.'',
            t3 = pushPlain makeTodoScore ''Server not reachable.'',
            t4 = pushPlain makeTodoScore ''Server not reachable.'',
            t5 = pushPlain makeTodoScore ''Server not reachable.''\<rparr>, tr))"

record report =
  command_used :: string
  detected_base_url :: "string option"
  per_todo :: "int list"
  lab_points :: int
  submission_points :: int
  total_points :: int

text \<open>Lines 361 to 402, without the texts of the summary.\<close>

definition buildReport :: "env \<Rightarrow> startInfo \<Rightarrow> string option \<Rightarrow> scores \<Rightarrow> report" where
  "buildReport e si baseUrl sc =
     (let p1 = bandPoints (t1 sc);
          p2 = bandPoints (t2 sc);
          p3 = bandPoints (t3 sc);
          p4 = bandPoints (t4 sc);
          p5 = bandPoints (t5 sc);
          labPts = labPoints p1 p2 p3 p4 p5;
          subPoints = (if isLate e then 10 else 20);
          totalPoints = labPts + subPoints
      in \<lparr>command_used = usedCommand si, detected_base_url = baseUrl,
           per_todo = [p1, p2, p3, p4, p5], lab_points = labPts,
           submission_points = subPoints, total_points = totalPoints\<rparr>)"

text \<open>What can raise outside a \<^verbatim>\<open>try\<close>: entering the lab directory, creating the
  report directory, a spawn that fails, writing a report file; and, inside a
  \<^verbatim>\<open>try\<close>, sending a signal.\<close>

datatype exn =
  ChdirFailed string | MkdirFailed string | SpawnFailed string | WriteFailed string
| KillFailed int

definition writeFileSync :: "env \<Rightarrow> string \<Rightarrow> trace \<Rightarrow> (exn + unit) \<times> trace" where
  "writeFileSync e file tr =
     (if writable e file then (Inr (), tr @ [WriteFile file]) else (Inl (WriteFailed file), tr))"

text \<open>\<^verbatim>\<open>process.kill(target, "SIGKILL")\<close>: the attempt is an event whether or not the
  signal is delivered; an undelivered signal raises.\<close>

definition processKill :: "env \<Rightarrow> int \<Rightarrow> trace \<Rightarrow> (exn + unit) \<times> trace" where
  "processKill e target tr =
     (if delivered e target then Inr () else Inl (KillFailed target), tr @ [Kill target])"

text \<open>Lines 441 to 456: the job summary, whose failure is swallowed.\<close>

definition publishSummary :: "env \<Rightarrow> trace \<Rightarrow> trace" where
  "publishSummary e tr =
     (case GITHUB_STEP_SUMMARY e of
        None \<Rightarrow> tr
      | Some sumPath \<Rightarrow>
          if sumPath \<noteq> [] \<and> writable e sumPath then tr @ [AppendFile sumPath] else tr)"

text \<open>
  Lines 458 to 468: the cleanup block. Each \<^verbatim>\<open>try { process.kill(...) } catch {}\<close>
  drops the result of its attempt and keeps the trace. On win32 the spawning of
  \<^verbatim>\<open>taskkill\<close>, a command of the system, is taken to succeed.
\<close>

definition cleanup :: "env \<Rightarrow> startInfo \<Rightarrow> trace \<Rightarrow> trace" where
  "cleanup e si tr =
     (case child si of
        None \<Rightarrow> tr
      | Some c \<Rightarrow>
          (case pid c of
             None \<Rightarrow> tr
           | Some n \<Rightarrow>
               if n = 0 then tr
               else if platform e = ''win32'' then
                 tr @ [Spawn ''taskkill'' [''/pid'', show_nat n, ''/f'', ''/t'']]
               else
                 (let (r1, tr1) = processKill e (- int n) tr;
                      (r2, tr2) = processKill e (int n) tr1
                  in tr2)))"

record run =
  outcome :: "exn + report"
  effects :: trace
  exitCode :: nat

text \<open>Lines 470 to 473: the handler of an exception that leaves the main function.\<close>

definition crashed :: "exn \<Rightarrow> trace \<Rightarrow> run" where
  "crashed x tr = \<lparr>outcome = Inl x, effects = tr @ [ConsoleError], exitCode = 1\<rparr>"

text \<open>
  An exception that nothing catches (at module level, or the \<^verbatim>\<open>'error'\<close> event of a
  child on which the script puts no listener for it) ends the process with exit code 1;
  the handler of lines 470 to 473 does not run.
\<close>

definition died :: "exn \<Rightarrow> trace \<Rightarrow> run" where
  "died x tr = \<lparr>outcome = Inl x, effects = tr, exitCode = 1\<rparr>"

text \<open>\<^verbatim>\<open>process.chdir\<close>, which raises when the directory cannot be entered.\<close>

definition chdir :: "env \<Rightarrow> string \<Rightarrow> trace \<Rightarrow> (exn + unit) \<times> trace" where
  "chdir e dir tr =
     (if chdirOk e dir then (Inr (), tr @ [Chdir dir]) else (Inl (ChdirFailed dir), tr))"

definition SUB_LAB :: "env \<Rightarrow> string" where
  "SUB_LAB e = path_join (REPO_ROOT e) ''6-3-express-request-data''"

text \<open>Lines 65 to 81: the choice of the lab directory. The result is the environment
  with the variable \<open>LAB_DIR\<close> as the script leaves it.\<close>

definition detectLabDir :: "env \<Rightarrow> trace \<Rightarrow> (exn + env) \<times> trace" where
  "detectLabDir e0 tr =
     (let e = e0\<lparr>LAB_DIR := REPO_ROOT e0\<rparr>;
          ROOT_HAS_SERVER = existsSync e (path_join (REPO_ROOT e) ''server.js'');
          SUB_HAS_SERVER = existsSync e (path_join (SUB_LAB e) ''server.js'')
      in if \<not> ROOT_HAS_SERVER \<and> SUB_HAS_SERVER then
           (let e = e\<lparr>LAB_DIR := SUB_LAB e\<rparr>
            in case chdir e (LAB_DIR e) tr of
                 (Inl x, tr1) \<Rightarrow> (Inl x, tr1)
               | (Inr u, tr1) \<Rightarrow> (Inr e, tr1))
         else if ROOT_HAS_SERVER then (Inr (e\<lparr>LAB_DIR := REPO_ROOT e\<rparr>), tr)
         else if existsSync e (SUB_LAB e) then
           (let e = e\<lparr>LAB_DIR := SUB_LAB e\<rparr>
            in case chdir e (LAB_DIR e) tr of
                 (Inl x, tr1) \<Rightarrow> (Inl x, tr1)
               | (Inr u, tr1) \<Rightarrow> (Inr e, tr1))
         else (Inr e, tr))"

text \<open>Lines 46 to 50: \<^verbatim>\<open>fs.mkdirSync\<close> raises when the directory cannot be created.\<close>

definition ensureOutDir :: "env \<Rightarrow> string \<Rightarrow> trace \<Rightarrow> (exn + string) \<times> trace" where
  "ensureOutDir e root tr =
     (let out = path_join (path_join root ''dist'') ''grading''
      in if mkdirOk e out then (Inr out, tr @ [Mkdir out]) else (Inl (MkdirFailed out), tr))"

text \<open>Lines 65 to 84: the module-level code that runs before the main function; it
  gives the environment with \<open>LAB_DIR\<close> set, and \<^verbatim>\<open>OUT_DIR\<close>.\<close>

definition moduleLevel :: "env \<Rightarrow> (exn + env \<times> string) \<times> trace" where
  "moduleLevel e0 =
     (case detectLabDir e0 [] of
        (Inl x, tr) \<Rightarrow> (Inl x, tr)
      | (Inr e, tr) \<Rightarrow>
          (case ensureOutDir e (LAB_DIR e) tr of
             (Inl x, tr1) \<Rightarrow> (Inl x, tr1)
           | (Inr OUT_DIR, tr1) \<Rightarrow> (Inr (e, OUT_DIR), tr1)))"

text \<open>
  A spawn that failed: the child has no process id. The script puts no listener for
  \<^verbatim>\<open>'error'\<close> on the child (lines 142 and 143 are its only listeners), so the event
  ends the process at the first \<^verbatim>\<open>await\<close> of the startup wait, before discovery.
\<close>

definition spawnFailed :: "startInfo \<Rightarrow> bool" where
  "spawnFailed si = (case child si of None \<Rightarrow> False | Some c \<Rightarrow> pid c = None)"

text \<open>Lines 334 to 473: the main function, in the environment and on the trace that the
  module-level code left.\<close>

definition main :: "env \<Rightarrow> string \<Rightarrow> trace \<Rightarrow> run" where
  "main e OUT_DIR tr0 =
     (let (si, tr1) = startStudentApp e tr0
      in if spawnFailed si then died (SpawnFailed (usedCommand si)) tr1
         else
           (let (baseUrl, tr2) = findBaseUrl (net e) (detectedPort si) tr1;
                (sc, tr3) = runChecks (net e) baseUrl tr2;
                rep = buildReport e si baseUrl sc;
                gradeJsonPath = path_join OUT_DIR ''grade.json'';
                gradeTxtPath = path_join OUT_DIR ''grade.txt''
            in case writeFileSync e gradeJsonPath tr3 of
                 (Inl x, tr4) \<Rightarrow> crashed x tr4
               | (Inr u, tr4) \<Rightarrow>
                   (case writeFileSync e gradeTxtPath tr4 of
                      (Inl x, tr5) \<Rightarrow> crashed x tr5
                    | (Inr v, tr5) \<Rightarrow>
                        (let tr6 = tr5 @ [ConsoleLog];
                             tr7 = publishSummary e tr6;
                             tr8 = cleanup e si tr7
                         in \<lparr>outcome = Inr rep, effects = tr8, exitCode = 0\<rparr>))))"

text \<open>A run of the script: the module-level code, then the main function.\<close>

definition script :: "env \<Rightarrow> run" where
  "script e0 =
     (case moduleLevel e0 of
        (Inl x, tr) \<Rightarrow> died x tr
      | (Inr (e, OUT_DIR), tr) \<Rightarrow> main e OUT_DIR tr)"

subsection \<open>Observations used in the statements\<close>

text \<open>What a timed fetch returns and the events it adds, read off the network.\<close>

definition settled :: "network \<Rightarrow> string \<Rightarrow> opts \<Rightarrow> nat \<Rightarrow> response option" where
  "settled nw url os to =
     (case nw url os of
        Settles ms out \<Rightarrow>
          (case out of Inr res \<Rightarrow> if ms < to then Some res else None | Inl f \<Rightarrow> None)
      | Hangs \<Rightarrow> None)"

definition fetchEvents :: "network \<Rightarrow> string \<Rightarrow> opts \<Rightarrow> nat \<Rightarrow> trace" where
  "fetchEvents nw url os to =
     (case nw url os of
        Settles ms out \<Rightarrow>
          if ms < to then [SetTimeout to, Request url, ClearTimeout]
          else [SetTimeout to, Request url, Abort, ClearTimeout]
      | Hangs \<Rightarrow> [SetTimeout to, Request url, Abort, ClearTimeout])"

text \<open>The test of line 174 on the root path of a port.\<close>

definition accepted :: "network \<Rightarrow> nat \<Rightarrow> bool" where
  "accepted nw p =
     (case fst (safeFetch nw (baseOf p @ ''/'') [] REQ_TIMEOUT_MS []) of
        Some res \<Rightarrow> ok res \<or> status res = 404
      | None \<Rightarrow> False)"

text \<open>Whether the default timed fetch of a URL gives a response.\<close>

definition reachable :: "network \<Rightarrow> string \<Rightarrow> bool" where
  "reachable nw url = (fst (safeFetch nw url [] REQ_TIMEOUT_MS []) \<noteq> None)"

text \<open>The URLs requested in a trace, in order, and the signals sent.\<close>

fun requestsOf :: "trace \<Rightarrow> string list" where
  "requestsOf [] = []"
| "requestsOf (Request u # tr) = u # requestsOf tr"
| "requestsOf (ev # tr) = requestsOf tr"

fun killsOf :: "trace \<Rightarrow> int list" where
  "killsOf [] = []"
| "killsOf (Kill n # tr) = n # killsOf tr"
| "killsOf (ev # tr) = killsOf tr"

fun spawnsOf :: "trace \<Rightarrow> (string \<times> string list) list" where
  "spawnsOf [] = []"
| "spawnsOf (Spawn c as # tr) = (c, as) # spawnsOf tr"
| "spawnsOf (ev # tr) = spawnsOf tr"

text \<open>The elements of a list up to and including the first that satisfies a test.\<close>

definition upToFirst :: "('a \<Rightarrow> bool) \<Rightarrow> 'a list \<Rightarrow> 'a list" where
  "upToFirst P xs = takeWhile (\<lambda>x. \<not> P x) xs @ take 1 (dropWhile (\<lambda>x. \<not> P x) xs)"

text \<open>
  The stages of a run, each on the trace the previous one left: whether the module-level
  code ends without raising, the environment and the report directory it gives, and
  the three stages of the main function before the report.
\<close>

definition moduleLoads :: "env \<Rightarrow> bool" where
  "moduleLoads e = (case fst (moduleLevel e) of Inl x \<Rightarrow> False | Inr p \<Rightarrow> True)"

definition labEnv :: "env \<Rightarrow> env" where
  "labEnv e = (case fst (moduleLevel e) of Inl x \<Rightarrow> e | Inr p \<Rightarrow> fst p)"

definition outDir :: "env \<Rightarrow> string" where
  "outDir e = (case fst (moduleLevel e) of Inl x \<Rightarrow> [] | Inr p \<Rightarrow> snd p)"

definition started :: "env \<Rightarrow> startInfo \<times> trace" where
  "started e = startStudentApp (labEnv e) (snd (moduleLevel e))"

definition discovery :: "env \<Rightarrow> string option \<times> trace" where
  "discovery e = findBaseUrl (net e) (detectedPort (fst (started e))) (snd (started e))"

definition probing :: "env \<Rightarrow> scores \<times> trace" where
  "probing e = runChecks (net e) (fst (discovery e)) (snd (discovery e))"

definition gradeJson :: "env \<Rightarrow> string" where
  "gradeJson e = path_join (outDir e) ''grade.json''"

definition gradeTxt :: "env \<Rightarrow> string" where
  "gradeTxt e = path_join (outDir e) ''grade.txt''"

text \<open>Whether the module-level code enters the lab's own folder, and the lab directory
  it settles on.\<close>

definition entersSubLab :: "env \<Rightarrow> bool" where
  "entersSubLab e =
     (\<not> existsSync e (path_join (REPO_ROOT e) ''server.js'')
      \<and> (existsSync e (path_join (SUB_LAB e) ''server.js'') \<or> existsSync e (SUB_LAB e)))"

definition labDir :: "env \<Rightarrow> string" where
  "labDir e = (if entersSubLab e then SUB_LAB e else REPO_ROOT e)"

text \<open>A run reaches discovery when the module-level code ends without raising and the
  spawn, if any, did not fail.\<close>

definition reachesDiscovery :: "env \<Rightarrow> bool" where
  "reachesDiscovery e = (moduleLoads e \<and> \<not> spawnFailed (fst (started e)))"

subsection \<open>Discovery in the words of the specification\<close>

text \<open>
  The specification's reading of discovery, for comparison with \<open>findBaseUrl\<close>: the
  sniffed port first, then the scan range without it, and the first candidate that is
  reachable with status 200 or 404.
\<close>

definition specCandidates :: "nat option \<Rightarrow> nat list" where
  "specCandidates dp =
     (case dp of None \<Rightarrow> [3000..<3024] | Some d \<Rightarrow> d # filter (\<lambda>p. p \<noteq> d) [3000..<3024])"

definition specAccepted :: "network \<Rightarrow> nat \<Rightarrow> bool" where
  "specAccepted nw p =
     (case fst (safeFetch nw (baseOf p @ ''/'') [] REQ_TIMEOUT_MS []) of
        Some res \<Rightarrow> status res = 200 \<or> status res = 404
      | None \<Rightarrow> False)"

definition specFindBaseUrl :: "network \<Rightarrow> nat option \<Rightarrow> string option" where
  "specFindBaseUrl nw dp = map_option baseOf (find (specAccepted nw) (specCandidates dp))"

subsection \<open>Example networks\<close>

text \<open>A server on port 3000 that answers the root path with 204 and one on port 3001
  that answers with 200; and a machine on which nothing listens.\<close>

definition net204 :: network where
  "net204 url os =
     (if url = ''http://127.0.0.1:3000/''
      then Settles 5 (Inr \<lparr>status = 204, json_body = None\<rparr>)
      else if url = ''http://127.0.0.1:3001/''
      then Settles 5 (Inr \<lparr>status = 200, json_body = Some (JObj [])\<rparr>)
      else Settles 1 (Inl ConnectionRefused))"

definition netDown :: network where
  "netDown url os = Settles 1 (Inl ConnectionRefused)"

text \<open>A server that answers every request with status 500 and a body that is not
  JSON; and a server whose \<^verbatim>\<open>/echo\<close> route answers as the assignment asks.\<close>

definition net500 :: network where
  "net500 url os = Settles 3 (Inr \<lparr>status = 500, json_body = None\<rparr>)"

definition netEcho :: network where
  "netEcho url os =
     (if url = ''http://127.0.0.1:3000/echo?name=Ali&age=22''
      then Settles 5 (Inr \<lparr>status = 200, json_body = Some (JObj
             [(''ok'', JBool True), (''name'', JStr ''Ali''), (''age'', JNum 22),
              (''msg'', JStr ''hi'')])\<rparr>)
      else if url = ''http://127.0.0.1:3000/echo?name=Ali''
      then Settles 5 (Inr \<lparr>status = 400, json_body = Some (JObj
             [(''ok'', JBool False), (''error'', JStr ''missing age'')])\<rparr>)
      else Settles 1 (Inl ConnectionRefused))"

subsection \<open>Example environments\<close>

text \<open>
  A machine with an empty project directory on which a spawned process would get the
  process id 4242, and variants of it: a project with \<^verbatim>\<open>app.js\<close>, a project with a
  start script only, a project with \<^verbatim>\<open>server.js\<close>, the same on Windows, and the
  same with a report directory that cannot be written.
\<close>

definition envEmpty :: env where
  "envEmpty =
     \<lparr>REPO_ROOT = ''/lab'', LAB_DIR = ''/lab'', chdirOk = (\<lambda>dir. True),
      mkdirOk = (\<lambda>dir. True), execPath = ''/usr/bin/node'', platform = ''linux'',
      existsSync = (\<lambda>file. False), parsedFile = (\<lambda>file. None),
      spawned = (\<lambda>cmd args. \<lparr>proc_pid = Some 4242, proc_stdout = [], proc_stderr = [],
                               proc_port = None\<rparr>),
      net = netDown, isLate = False, writable = (\<lambda>file. True), delivered = (\<lambda>target. False),
      GITHUB_STEP_SUMMARY = None\<rparr>"

definition envApp :: env where
  "envApp = envEmpty\<lparr>existsSync := (\<lambda>file. file = ''/lab/app.js'')\<rparr>"

definition envNpm :: env where
  "envNpm =
     envEmpty\<lparr>existsSync := (\<lambda>file. file = ''/lab/package.json''),
              parsedFile := (\<lambda>file. Some (JObj [(''scripts'',
                               JObj [(''start'', JStr ''node web.js'')])]))\<rparr>"

definition envServer :: env where
  "envServer = envEmpty\<lparr>existsSync := (\<lambda>file. file = ''/lab/server.js'')\<rparr>"

definition envServerWin :: env where
  "envServerWin = envServer\<lparr>platform := ''win32''\<rparr>"

definition envServerReadOnly :: env where
  "envServerReadOnly = envServer\<lparr>writable := (\<lambda>file. False)\<rparr>"

definition noEntryInfo :: startInfo where
  "noEntryInfo =
     \<lparr>child = None, stdoutBuf = [], stderrBuf = ''No entry file or npm start.'',
      detectedPort = None, usedCommand = ''(no entry found)''\<rparr>"

section \<open>Properties\<close>

subsection \<open>Bounds and the floor of the scores\<close>


lemma clamp_bounds: "a \<le> b \<Longrightarrow> a \<le> clamp n a b \<and> clamp n a b \<le> b"
  by (simp add: clamp_def)

lemma bandPoints_range: "0 \<le> bandPoints s \<and> bandPoints s \<le> 16"
proof -
  have c: "0 \<le> clamp (completeness s) 0 8 \<and> clamp (completeness s) 0 8 \<le> 8"
    by (rule clamp_bounds) simp
  have r: "0 \<le> clamp (correctness s) 0 4 \<and> clamp (correctness s) 0 4 \<le> 4"
    by (rule clamp_bounds) simp
  have q: "0 \<le> clamp (quality s) 0 4 \<and> clamp (quality s) 0 4 \<le> 4"
    by (rule clamp_bounds) simp
  from c r q show ?thesis unfolding bandPoints_def by linarith
qed

text \<open>
  Claim C1. Over the five group totals: when some total is strictly positive and the
  raw sum is below 60 the reported lab total is exactly 60; when every total is zero it
  is 0; when the raw sum is at least 60 it is the raw sum.
\<close>

theorem labPoints_floor:
  "((0 < p1 \<or> 0 < p2 \<or> 0 < p3 \<or> 0 < p4 \<or> 0 < p5) \<and> p1 + p2 + p3 + p4 + p5 < 60
      \<longrightarrow> labPoints p1 p2 p3 p4 p5 = 60)
   \<and> (p1 = 0 \<and> p2 = 0 \<and> p3 = 0 \<and> p4 = 0 \<and> p5 = 0 \<longrightarrow> labPoints p1 p2 p3 p4 p5 = 0)
   \<and> (60 \<le> p1 + p2 + p3 + p4 + p5
      \<longrightarrow> labPoints p1 p2 p3 p4 p5 = p1 + p2 + p3 + p4 + p5)"
  by (auto simp: labPoints_def rawLabPoints_def someProgress_def Let_def)

theorem labPoints_floor_witness:
  "labPoints 16 10 0 8 8 = 60 \<and> labPoints 0 0 0 0 0 = 0 \<and> labPoints 16 16 16 16 4 = 68"
  using labPoints_floor [of 16 10 0 8 8] labPoints_floor [of 0 0 0 0 0]
    labPoints_floor [of 16 16 16 16 4]
  by simp

text \<open>
  Claim C2. Whatever a score record holds, the values that enter the group total are
  the completeness clamped to 0..8, the correctness clamped to 0..4 and the quality
  clamped to 0..4, so a group total is at most 16 and the raw lab total of five groups
  is at most 80.
\<close>

theorem bandPoints_bounded:
  "0 \<le> clamp (completeness s) 0 8 \<and> clamp (completeness s) 0 8 \<le> 8
   \<and> 0 \<le> clamp (correctness s) 0 4 \<and> clamp (correctness s) 0 4 \<le> 4
   \<and> 0 \<le> clamp (quality s) 0 4 \<and> clamp (quality s) 0 4 \<le> 4
   \<and> bandPoints s
       = clamp (completeness s) 0 8 + clamp (correctness s) 0 4 + clamp (quality s) 0 4
   \<and> 0 \<le> bandPoints s \<and> bandPoints s \<le> 16
   \<and> rawLabPoints (bandPoints g1) (bandPoints g2) (bandPoints g3) (bandPoints g4)
        (bandPoints g5) \<le> 80"
proof -
  have bands: "0 \<le> clamp (completeness s) 0 8 \<and> clamp (completeness s) 0 8 \<le> 8
      \<and> 0 \<le> clamp (correctness s) 0 4 \<and> clamp (correctness s) 0 4 \<le> 4
      \<and> 0 \<le> clamp (quality s) 0 4 \<and> clamp (quality s) 0 4 \<le> 4"
    by (simp add: clamp_bounds)
  have total: "rawLabPoints (bandPoints g1) (bandPoints g2) (bandPoints g3) (bandPoints g4)
        (bandPoints g5) \<le> 80"
    using bandPoints_range [of g1] bandPoints_range [of g2] bandPoints_range [of g3]
      bandPoints_range [of g4] bandPoints_range [of g5]
    unfolding rawLabPoints_def by linarith
  from bands total bandPoints_range [of s] show ?thesis
    by (simp add: bandPoints_def)
qed

subsection \<open>The timed fetch\<close>

lemma safeFetch_eq:
  "safeFetch nw url os to tr = (settled nw url os to, tr @ fetchEvents nw url os to)"
  by (simp add: safeFetch_def awaitFetch_def settled_def fetchEvents_def
      split: behaviour.splits sum.splits)

lemma requestsOf_append: "requestsOf (a @ b) = requestsOf a @ requestsOf b"
  by (induction a rule: requestsOf.induct) simp_all

lemma killsOf_append: "killsOf (a @ b) = killsOf a @ killsOf b"
  by (induction a rule: killsOf.induct) simp_all

lemma spawnsOf_append: "spawnsOf (a @ b) = spawnsOf a @ spawnsOf b"
  by (induction a rule: spawnsOf.induct) simp_all

lemma requestsOf_fetchEvents: "requestsOf (fetchEvents nw url os to) = [url]"
  by (simp add: fetchEvents_def split: behaviour.splits)

lemma killsOf_fetchEvents: "killsOf (fetchEvents nw url os to) = []"
  by (simp add: fetchEvents_def split: behaviour.splits)

lemma spawnsOf_fetchEvents: "spawnsOf (fetchEvents nw url os to) = []"
  by (simp add: fetchEvents_def split: behaviour.splits)

lemma accepted_settled:
  "accepted nw p =
     (case settled nw (baseOf p @ ''/'') [] REQ_TIMEOUT_MS of
        Some res \<Rightarrow> ok res \<or> status res = 404
      | None \<Rightarrow> False)"
  by (simp add: accepted_def safeFetch_eq)

lemma reachable_settled: "reachable nw url = (settled nw url [] REQ_TIMEOUT_MS \<noteq> None)"
  by (simp add: reachable_def safeFetch_eq)

text \<open>
  Claim C4. The timed fetch has no raising outcome: whatever the URL, the options and
  the timeout, a rejection of the underlying request (refused connection, failed name
  resolution, protocol error, abort) gives the null value; when the timer expires
  before the request settles, the request is aborted, then the timer is cleared, and
  the null value is returned. A response is returned exactly when the request settles
  with it before the timer.
\<close>

theorem safeFetch_never_raises:
  "(fst (awaitFetch nw url os to (tr @ [SetTimeout to])) = Inl f
      \<longrightarrow> fst (safeFetch nw url os to tr) = None)
   \<and> (nw url os = Settles ms (Inl f) \<longrightarrow> fst (safeFetch nw url os to tr) = None)
   \<and> (nw url os = Hangs \<or> (nw url os = Settles ms out \<and> to \<le> ms)
      \<longrightarrow> safeFetch nw url os to tr
            = (None, tr @ [SetTimeout to, Request url, Abort, ClearTimeout]))
   \<and> (fst (safeFetch nw url os to tr) = Some res
      \<longleftrightarrow> (\<exists>t. nw url os = Settles t (Inr res) \<and> t < to))"
  by (auto simp: safeFetch_def awaitFetch_def split: behaviour.splits sum.splits)

theorem safeFetch_never_raises_witness:
  "fst (safeFetch netDown ''http://127.0.0.1:3000/'' [] 3500 []) = None
   \<and> safeFetch (\<lambda>url os. Hangs) ''http://127.0.0.1:3000/'' [] 3500 []
       = (None, [SetTimeout 3500, Request ''http://127.0.0.1:3000/'', Abort, ClearTimeout])
   \<and> safeFetch (\<lambda>url os. Settles 4000 (Inr \<lparr>status = 200, json_body = None\<rparr>))
         ''http://127.0.0.1:3000/'' [] 3500 []
       = (None, [SetTimeout 3500, Request ''http://127.0.0.1:3000/'', Abort, ClearTimeout])
   \<and> fst (safeFetch net204 ''http://127.0.0.1:3000/'' [] 3500 [])
       = Some \<lparr>status = 204, json_body = None\<rparr>"
  using
    safeFetch_never_raises [of netDown "''http://127.0.0.1:3000/''" "[]" 3500 "[]"
      ConnectionRefused 1 "Inl ConnectionRefused" "\<lparr>status = 204, json_body = None\<rparr>"]
    safeFetch_never_raises [of "\<lambda>url os. Hangs" "''http://127.0.0.1:3000/''" "[]" 3500 "[]"
      ConnectionRefused 1 "Inl ConnectionRefused" "\<lparr>status = 204, json_body = None\<rparr>"]
    safeFetch_never_raises
      [of "\<lambda>url os. Settles 4000 (Inr \<lparr>status = 200, json_body = None\<rparr>)"
        "''http://127.0.0.1:3000/''" "[]" 3500 "[]" ConnectionRefused 4000
        "Inr \<lparr>status = 200, json_body = None\<rparr>" "\<lparr>status = 204, json_body = None\<rparr>"]
    safeFetch_never_raises [of net204 "''http://127.0.0.1:3000/''" "[]" 3500 "[]"
      ConnectionRefused 1 "Inl ConnectionRefused" "\<lparr>status = 204, json_body = None\<rparr>"]
  by (simp add: netDown_def net204_def awaitFetch_def)

subsection \<open>Discovery\<close>

lemma SCAN_PORTS_range: "SCAN_PORTS = [3000..<3024]"
proof -
  have "map ((+) 3000) [0..<24] = map (\<lambda>i. i + 3000) [0..<24::nat]"
    by (rule map_cong) (simp_all del: upt_rec_numeral)
  also have "\<dots> = [3000..<24 + 3000]"
    by (rule map_add_upt)
  finally show ?thesis by (simp add: SCAN_PORTS_def del: upt_rec_numeral)
qed

lemma foldl_push_new:
  "distinct xs \<Longrightarrow>
   foldl (\<lambda>cs p. if p \<in> set cs then cs else cs @ [p]) init xs
     = init @ filter (\<lambda>p. p \<notin> set init) xs"
proof (induction xs arbitrary: init)
  case Nil
  then show ?case by simp
next
  case (Cons x xs)
  from Cons.prems have dx: "distinct xs" and nx: "x \<notin> set xs" by simp_all
  show ?case
  proof (cases "x \<in> set init")
    case True
    then show ?thesis using Cons.IH [OF dx, of init] by simp
  next
    case False
    have "filter (\<lambda>p. p \<notin> set (init @ [x])) xs = filter (\<lambda>p. p \<notin> set init) xs"
      using nx by (intro filter_cong) auto
    then show ?thesis using False Cons.IH [OF dx, of "init @ [x]"] by simp
  qed
qed

lemma candidatesOf_eq:
  "candidatesOf dp =
     (case dp of
        None \<Rightarrow> SCAN_PORTS
      | Some d \<Rightarrow> if d \<noteq> 0 then d # filter (\<lambda>p. p \<noteq> d) SCAN_PORTS else SCAN_PORTS)"
proof -
  have d: "distinct SCAN_PORTS" unfolding SCAN_PORTS_range by (simp del: upt_rec_numeral)
  show ?thesis
    unfolding candidatesOf_def foldl_push_new [OF d]
    by (simp split: option.splits)
qed

lemma probePorts_fst:
  "fst (probePorts nw ps tr) = map_option baseOf (find (accepted nw) ps)"
  by (induction ps arbitrary: tr)
     (simp_all add: safeFetch_eq accepted_settled split: option.splits)

lemma probePorts_requests:
  "requestsOf (snd (probePorts nw ps tr))
     = requestsOf tr @ map (\<lambda>p. baseOf p @ ''/'') (upToFirst (accepted nw) ps)"
  by (induction ps arbitrary: tr)
     (simp_all add: safeFetch_eq accepted_settled upToFirst_def requestsOf_append
        requestsOf_fetchEvents split: option.splits)

lemma baseOf_3000: "baseOf 3000 = ''http://127.0.0.1:3000''"
  by (simp add: baseOf_def show_nat.simps)

lemma baseOf_3001: "baseOf 3001 = ''http://127.0.0.1:3001''"
  by (simp add: baseOf_def show_nat.simps)

lemma scan_head: "[3000..<3024::nat] = 3000 # 3001 # [3002..<3024]"
  by (simp add: upt_conv_Cons del: upt_rec_numeral)

text \<open>
  Claim C3, as the code has it. The candidates are the detected port (when it is a number
  other than 0) followed by the scan range 3000..3023 without it; the root path of each
  candidate is fetched in that order, up to and including the first accepted one; the
  result is the base URL of the first candidate whose fetch gives a response with a
  status in 200..299 (the platform's \<^verbatim>\<open>res.ok\<close>) or the status 404; and the result is
  null exactly when no candidate is accepted.
\<close>

theorem findBaseUrl_first_accepted:
  "candidatesOf dp =
     (case dp of
        None \<Rightarrow> [3000..<3024]
      | Some d \<Rightarrow> if d \<noteq> 0 then d # filter (\<lambda>p. p \<noteq> d) [3000..<3024] else [3000..<3024])
   \<and> (accepted nw p \<longleftrightarrow>
        (\<exists>res. fst (safeFetch nw (baseOf p @ ''/'') [] REQ_TIMEOUT_MS []) = Some res
           \<and> (200 \<le> status res \<and> status res \<le> 299 \<or> status res = 404)))
   \<and> fst (findBaseUrl nw dp tr) = map_option baseOf (find (accepted nw) (candidatesOf dp))
   \<and> requestsOf (snd (findBaseUrl nw dp tr))
       = requestsOf tr
         @ map (\<lambda>q. baseOf q @ ''/'') (upToFirst (accepted nw) (candidatesOf dp))
   \<and> (fst (findBaseUrl nw dp tr) = None \<longleftrightarrow> (\<forall>q \<in> set (candidatesOf dp). \<not> accepted nw q))"
proof -
  have c: "candidatesOf dp =
     (case dp of
        None \<Rightarrow> [3000..<3024]
      | Some d \<Rightarrow> if d \<noteq> 0 then d # filter (\<lambda>p. p \<noteq> d) [3000..<3024] else [3000..<3024])"
    unfolding candidatesOf_eq SCAN_PORTS_range by (rule refl)
  have a: "accepted nw p \<longleftrightarrow>
        (\<exists>res. fst (safeFetch nw (baseOf p @ ''/'') [] REQ_TIMEOUT_MS []) = Some res
           \<and> (200 \<le> status res \<and> status res \<le> 299 \<or> status res = 404))"
    by (simp add: accepted_def ok_def split: option.splits)
  have r: "fst (findBaseUrl nw dp tr) = map_option baseOf (find (accepted nw) (candidatesOf dp))"
    by (simp add: findBaseUrl_def probePorts_fst)
  have q: "requestsOf (snd (findBaseUrl nw dp tr))
       = requestsOf tr
         @ map (\<lambda>q. baseOf q @ ''/'') (upToFirst (accepted nw) (candidatesOf dp))"
    by (simp add: findBaseUrl_def probePorts_requests)
  have n: "fst (findBaseUrl nw dp tr) = None \<longleftrightarrow> (\<forall>q \<in> set (candidatesOf dp). \<not> accepted nw q)"
    unfolding r by (auto simp: find_None_iff)
  from c a r q n show ?thesis by blast
qed

theorem findBaseUrl_first_accepted_witness:
  "candidatesOf (Some 3001) = 3001 # 3000 # [3002..<3024]
   \<and> accepted net204 3000
   \<and> fst (findBaseUrl net204 (Some 3001) []) = Some ''http://127.0.0.1:3001''
   \<and> requestsOf (snd (findBaseUrl net204 (Some 3001) [])) = [''http://127.0.0.1:3001/'']
   \<and> fst (findBaseUrl netDown None []) = None"
proof -
  note up = findBaseUrl_first_accepted [of "Some 3001" net204 3000 "[]"]
  note down = findBaseUrl_first_accepted [of None netDown 3000 "[]"]
  have keep: "filter (\<lambda>p. p \<noteq> 3001) [3002..<3024::nat] = [3002..<3024]"
    by (simp add: filter_id_conv del: upt_rec_numeral)
  have c: "candidatesOf (Some 3001) = 3001 # 3000 # [3002..<3024]"
    using up by (simp add: scan_head keep del: upt_rec_numeral)
  have a0: "accepted net204 3000"
    by (simp add: accepted_settled settled_def baseOf_3000 net204_def REQ_TIMEOUT_MS_def ok_def)
  have a1: "accepted net204 3001"
    by (simp add: accepted_settled settled_def baseOf_3001 net204_def REQ_TIMEOUT_MS_def ok_def)
  have r: "fst (findBaseUrl net204 (Some 3001) []) = Some ''http://127.0.0.1:3001''"
    using up by (simp add: c a1 baseOf_3001 del: upt_rec_numeral)
  have q: "requestsOf (snd (findBaseUrl net204 (Some 3001) [])) = [''http://127.0.0.1:3001/'']"
    using up by (simp add: c a1 upToFirst_def baseOf_3001 del: upt_rec_numeral)
  have none: "\<not> accepted netDown q" for q
    by (simp add: accepted_settled settled_def netDown_def)
  have d: "fst (findBaseUrl netDown None []) = None"
    using down none by blast
  from c a0 r q d show ?thesis by simp
qed

text \<open>
  The claim reads the accepted statuses as 200 and 404 only. On a machine where port
  3000 answers the root path with 204 and port 3001 with 200, the script returns port
  3000, where the reading of the specification gives port 3001.
\<close>

theorem findBaseUrl_status_200_or_404_counterexample:
  "fst (findBaseUrl net204 None []) = Some ''http://127.0.0.1:3000''
   \<and> fst (safeFetch net204 ''http://127.0.0.1:3000/'' [] REQ_TIMEOUT_MS [])
       = Some \<lparr>status = 204, json_body = None\<rparr>
   \<and> specFindBaseUrl net204 None = Some ''http://127.0.0.1:3001''"
  by (simp add: findBaseUrl_def probePorts_fst candidatesOf_eq SCAN_PORTS_range scan_head
      accepted_settled specFindBaseUrl_def specCandidates_def specAccepted_def safeFetch_eq
      settled_def baseOf_3000 baseOf_3001 net204_def REQ_TIMEOUT_MS_def ok_def
      del: upt_rec_numeral)

subsection \<open>The launcher\<close>

lemma spawnAndWatch_spawns:
  "spawnsOf (snd (spawnAndWatch e used cmd args tr)) = spawnsOf tr @ [(cmd, args)]"
  by (simp add: spawnAndWatch_def Let_def spawnsOf_append)

lemma spawnAndWatch_child:
  "child (fst (spawnAndWatch e used cmd args tr)) = Some \<lparr>pid = proc_pid (spawned e cmd args)\<rparr>"
  by (simp add: spawnAndWatch_def Let_def)

lemma server_js_ranked: "''server.js'' \<in> set ENTRY_CANDIDATES"
  by (simp add: ENTRY_CANDIDATES_def)

lemma find_envEmpty:
  "find (\<lambda>p. existsSync envEmpty (path_join (LAB_DIR envEmpty) p)) ENTRY_CANDIDATES = None"
  by (simp add: envEmpty_def find_None_iff)

lemma hasStart_envEmpty: "\<not> hasStart envEmpty"
  by (simp add: hasStart_def envEmpty_def)

lemma find_envApp:
  "find (\<lambda>p. existsSync envApp (path_join (LAB_DIR envApp) p)) ENTRY_CANDIDATES
     = Some ''app.js''"
  by (simp add: envApp_def envEmpty_def ENTRY_CANDIDATES_def path_join_def)

lemma find_envNpm:
  "find (\<lambda>p. existsSync envNpm (path_join (LAB_DIR envNpm) p)) ENTRY_CANDIDATES = None"
  by (simp add: envNpm_def envEmpty_def ENTRY_CANDIDATES_def path_join_def)

lemma hasStart_envNpm: "hasStart envNpm"
  by (simp add: hasStart_def envNpm_def envEmpty_def path_join_def)

text \<open>
  Claim C8. The launcher reads three tests (the first name of the ranked list that
  exists, whether a start script is declared, whether \<^verbatim>\<open>server.js\<close> exists) and takes
  the first strategy that applies: the runtime on the ranked entry; else the package
  manager's start command; else the runtime on \<^verbatim>\<open>server.js\<close>; else no child, the
  command text "(no entry found)" and no process spawned. Every other strategy spawns
  exactly one process and returns its child.
\<close>

theorem launcher_priority:
  "startStudentApp e tr
     = launch e (find (\<lambda>p. existsSync e (path_join (LAB_DIR e) p)) ENTRY_CANDIDATES)
         (hasStart e) (existsSync e (path_join (LAB_DIR e) ''server.js'')) tr
   \<and> (find (\<lambda>p. existsSync e (path_join (LAB_DIR e) p)) ENTRY_CANDIDATES = Some en
        \<longleftrightarrow> (\<exists>i < length ENTRY_CANDIDATES. ENTRY_CANDIDATES ! i = en
                \<and> existsSync e (path_join (LAB_DIR e) en)
                \<and> (\<forall>j < i. \<not> existsSync e (path_join (LAB_DIR e) (ENTRY_CANDIDATES ! j)))))
   \<and> (entry = Some en
        \<longrightarrow> launch e entry hs srv tr
              = spawnAndWatch e (''node '' @ en) (execPath e) [path_join (LAB_DIR e) en] tr)
   \<and> (entry = None \<and> hs
        \<longrightarrow> launch e entry hs srv tr
              = spawnAndWatch e ''npm start''
                  (if take 3 (platform e) = ''win'' then ''npm.cmd'' else ''npm'') [''start''] tr)
   \<and> (entry = None \<and> \<not> hs \<and> srv
        \<longrightarrow> launch e entry hs srv tr
              = spawnAndWatch e ''node server.js'' (execPath e)
                  [path_join (LAB_DIR e) ''server.js''] tr)
   \<and> (entry = None \<and> \<not> hs \<and> \<not> srv
        \<longrightarrow> launch e entry hs srv tr = (noEntryInfo, tr)
            \<and> child noEntryInfo = None \<and> usedCommand noEntryInfo = ''(no entry found)'')
   \<and> spawnsOf (snd (spawnAndWatch e used cmd args tr)) = spawnsOf tr @ [(cmd, args)]
   \<and> child (fst (spawnAndWatch e used cmd args tr)) \<noteq> None"
proof -
  have f: "find (\<lambda>p. existsSync e (path_join (LAB_DIR e) p)) ENTRY_CANDIDATES = Some en
        \<longleftrightarrow> (\<exists>i < length ENTRY_CANDIDATES. ENTRY_CANDIDATES ! i = en
                \<and> existsSync e (path_join (LAB_DIR e) en)
                \<and> (\<forall>j < i. \<not> existsSync e (path_join (LAB_DIR e) (ENTRY_CANDIDATES ! j))))"
    unfolding find_Some_iff by blast
  have l: "startStudentApp e tr
     = launch e (find (\<lambda>p. existsSync e (path_join (LAB_DIR e) p)) ENTRY_CANDIDATES)
         (hasStart e) (existsSync e (path_join (LAB_DIR e) ''server.js'')) tr"
    by (simp add: startStudentApp_def)
  have b: "(entry = Some en
        \<longrightarrow> launch e entry hs srv tr
              = spawnAndWatch e (''node '' @ en) (execPath e) [path_join (LAB_DIR e) en] tr)
   \<and> (entry = None \<and> hs
        \<longrightarrow> launch e entry hs srv tr
              = spawnAndWatch e ''npm start''
                  (if take 3 (platform e) = ''win'' then ''npm.cmd'' else ''npm'') [''start''] tr)
   \<and> (entry = None \<and> \<not> hs \<and> srv
        \<longrightarrow> launch e entry hs srv tr
              = spawnAndWatch e ''node server.js'' (execPath e)
                  [path_join (LAB_DIR e) ''server.js''] tr)
   \<and> (entry = None \<and> \<not> hs \<and> \<not> srv
        \<longrightarrow> launch e entry hs srv tr = (noEntryInfo, tr)
            \<and> child noEntryInfo = None \<and> usedCommand noEntryInfo = ''(no entry found)'')"
    by (simp add: launch_def noEntryInfo_def)
  from f l b spawnAndWatch_spawns [of e used cmd args tr]
    spawnAndWatch_child [of e used cmd args tr]
  show ?thesis by simp
qed

theorem launcher_priority_witness:
  "usedCommand (fst (startStudentApp envApp [])) = ''node app.js''
   \<and> snd (startStudentApp envApp []) = [Spawn ''/usr/bin/node'' [''/lab/app.js'']]
   \<and> usedCommand (fst (startStudentApp envNpm [])) = ''npm start''
   \<and> snd (startStudentApp envNpm []) = [Spawn ''npm'' [''start'']]
   \<and> usedCommand (fst (launch envEmpty None False True [])) = ''node server.js''
   \<and> snd (launch envEmpty None False True []) = [Spawn ''/usr/bin/node'' [''/lab/server.js'']]
   \<and> startStudentApp envEmpty [] = (noEntryInfo, [])"
proof -
  note app = launcher_priority [of envApp "[]" "''app.js''" "Some ''app.js''" "hasStart envApp"
      "existsSync envApp (path_join (LAB_DIR envApp) ''server.js'')"]
  note npm = launcher_priority [of envNpm "[]" "''app.js''" None True
      "existsSync envNpm (path_join (LAB_DIR envNpm) ''server.js'')"]
  note srv = launcher_priority [of envEmpty "[]" "''app.js''" None False True]
  note nil = launcher_priority [of envEmpty "[]" "''app.js''" None False False]
  have a: "startStudentApp envApp []
      = spawnAndWatch envApp ''node app.js'' (execPath envApp)
          [path_join (LAB_DIR envApp) ''app.js''] []"
    using app find_envApp by simp
  have n: "startStudentApp envNpm []
      = spawnAndWatch envNpm ''npm start''
          (if take 3 (platform envNpm) = ''win'' then ''npm.cmd'' else ''npm'') [''start''] []"
    using npm find_envNpm hasStart_envNpm by simp
  have s: "launch envEmpty None False True []
      = spawnAndWatch envEmpty ''node server.js'' (execPath envEmpty)
          [path_join (LAB_DIR envEmpty) ''server.js''] []"
    using srv by simp
  have z: "startStudentApp envEmpty [] = (noEntryInfo, [])"
    using nil find_envEmpty hasStart_envEmpty
    by (simp add: envEmpty_def path_join_def)
  show ?thesis
    unfolding a n s z
    by (simp add: spawnAndWatch_def envApp_def envNpm_def envEmpty_def path_join_def)
qed

text \<open>
  Claim C10. \<^verbatim>\<open>server.js\<close> heads the ranked list, so when the ranked list gives no
  entry and no start script is declared, \<^verbatim>\<open>server.js\<close> does not exist either: the
  launcher returns no child and spawns nothing, and its last spawning branch is never
  taken.
\<close>

theorem last_resort_unreachable:
  assumes "find (\<lambda>p. existsSync e (path_join (LAB_DIR e) p)) ENTRY_CANDIDATES = None"
    and "\<not> hasStart e"
  shows "hd ENTRY_CANDIDATES = ''server.js''
    \<and> \<not> existsSync e (path_join (LAB_DIR e) ''server.js'')
    \<and> startStudentApp e tr = (noEntryInfo, tr)
    \<and> child (fst (startStudentApp e tr)) = None
    \<and> spawnsOf (snd (startStudentApp e tr)) = spawnsOf tr"
proof -
  from assms(1) have none: "\<not> existsSync e (path_join (LAB_DIR e) ''server.js'')"
    using server_js_ranked by (auto simp: find_None_iff)
  have "startStudentApp e tr = (noEntryInfo, tr)"
    using assms none by (simp add: startStudentApp_def launch_def noEntryInfo_def)
  then show ?thesis using none by (simp add: ENTRY_CANDIDATES_def noEntryInfo_def)
qed

theorem last_resort_unreachable_witness:
  "find (\<lambda>p. existsSync envEmpty (path_join (LAB_DIR envEmpty) p)) ENTRY_CANDIDATES = None
   \<and> \<not> hasStart envEmpty
   \<and> \<not> existsSync envEmpty (path_join (LAB_DIR envEmpty) ''server.js'')
   \<and> startStudentApp envEmpty [] = (noEntryInfo, [])
   \<and> spawnsOf (snd (startStudentApp envEmpty [])) = []"
  using last_resort_unreachable [OF find_envEmpty hasStart_envEmpty, of "[]"]
    find_envEmpty hasStart_envEmpty
  by simp

subsection \<open>The probe groups\<close>

lemma push_fields:
  "completeness (pushOK s m) = completeness s" "correctness (pushOK s m) = correctness s"
  "quality (pushOK s m) = quality s"
  "completeness (pushWARN s m) = completeness s" "correctness (pushWARN s m) = correctness s"
  "quality (pushWARN s m) = quality s"
  "completeness (pushX s m) = completeness s" "correctness (pushX s m) = correctness s"
  "quality (pushX s m) = quality s"
  "completeness (pushPlain s m) = completeness s" "correctness (pushPlain s m) = correctness s"
  "quality (pushPlain s m) = quality s"
  by (simp_all add: pushOK_def pushWARN_def pushX_def pushPlain_def)

lemma makeTodoScore_fields:
  "completeness makeTodoScore = 0" "correctness makeTodoScore = 0" "quality makeTodoScore = 0"
  "todoNotes makeTodoScore = []"
  by (simp_all add: makeTodoScore_def)

lemma rootBlock_completeness:
  "completeness (rootBlock f s) = (if f = None then completeness s else 8)"
  by (simp add: rootBlock_def Let_def push_fields split: option.splits)

lemma profileBlock_completeness:
  "completeness (profileBlock f s) = (if f = None then completeness s else 8)"
  by (simp add: profileBlock_def Let_def push_fields split: option.splits)

lemma echoSuccessBlock_completeness:
  "completeness (echoSuccessBlock f s) = completeness s + (if f = None then 0 else 4)"
  by (simp add: echoSuccessBlock_def Let_def push_fields split: option.splits)

lemma echoErrorBlock_completeness:
  "completeness (echoErrorBlock f s) = completeness s + (if f = None then 0 else 4)"
  by (simp add: echoErrorBlock_def Let_def push_fields split: option.splits)

lemma validIdBlock_completeness:
  "completeness (validIdBlock f s) = completeness s + (if f = None then 0 else 8)"
  by (simp add: validIdBlock_def Let_def push_fields split: option.splits)

lemma nonNumericBlock_completeness:
  "completeness (nonNumericBlock f s) = completeness s + (if f = None then 0 else 4)"
  by (simp add: nonNumericBlock_def Let_def push_fields split: option.splits)

lemma negativeBlock_completeness:
  "completeness (negativeBlock f s) = completeness s + (if f = None then 0 else 4)"
  by (simp add: negativeBlock_def Let_def push_fields split: option.splits)

lemma capBands_fields:
  "completeness (capBands s) = min 8 (completeness s)"
  "correctness (capBands s) = min 4 (correctness s)"
  "quality (capBands s) = min 4 (quality s)"
  "todoNotes (capBands s) = todoNotes s"
  by (simp_all add: capBands_def Let_def)

lemma checkTodo1_eq:
  "checkTodo1 nw base tr
     = (rootBlock (settled nw (base @ ''/'') [] REQ_TIMEOUT_MS) makeTodoScore,
        tr @ fetchEvents nw (base @ ''/'') [] REQ_TIMEOUT_MS)"
  by (simp add: checkTodo1_def safeFetch_eq)

lemma checkTodo2_eq:
  "checkTodo2 nw base tr
     = (capBands
          (echoErrorBlock (settled nw (base @ ''/echo?name=Ali'') [] REQ_TIMEOUT_MS)
            (echoSuccessBlock (settled nw (base @ ''/echo?name=Ali&age=22'') [] REQ_TIMEOUT_MS)
              makeTodoScore)),
        tr @ fetchEvents nw (base @ ''/echo?name=Ali&age=22'') [] REQ_TIMEOUT_MS
           @ fetchEvents nw (base @ ''/echo?name=Ali'') [] REQ_TIMEOUT_MS)"
  by (simp add: checkTodo2_def safeFetch_eq)

lemma checkTodo3_eq:
  "checkTodo3 nw base tr
     = (profileBlock (settled nw (base @ ''/profile/Jack/Black'') [] REQ_TIMEOUT_MS)
          makeTodoScore,
        tr @ fetchEvents nw (base @ ''/profile/Jack/Black'') [] REQ_TIMEOUT_MS)"
  by (simp add: checkTodo3_def safeFetch_eq)

lemma checkTodo4and5_eq:
  "checkTodo4and5 nw base tr
     = ((capBands
           (negativeBlock (settled nw (base @ ''/users/-5'') [] REQ_TIMEOUT_MS)
             (nonNumericBlock (settled nw (base @ ''/users/abc'') [] REQ_TIMEOUT_MS)
               makeTodoScore)),
         capBands
           (validIdBlock (settled nw (base @ ''/users/42'') [] REQ_TIMEOUT_MS) makeTodoScore)),
        tr @ fetchEvents nw (base @ ''/users/42'') [] REQ_TIMEOUT_MS
           @ fetchEvents nw (base @ ''/users/abc'') [] REQ_TIMEOUT_MS
           @ fetchEvents nw (base @ ''/users/-5'') [] REQ_TIMEOUT_MS)"
  by (simp add: checkTodo4and5_def safeFetch_eq)

lemma echoSuccessBlock_bands:
  "correctness (echoSuccessBlock (Some r) s) = correctness s + (if status r = 200 then 2 else 0)"
  "quality (echoSuccessBlock (Some r) s)
     = quality s + (case json_body r of
                      Some j \<Rightarrow> if echoSuccessShape j then 2 else 0
                    | None \<Rightarrow> 0)"
  by (simp_all add: echoSuccessBlock_def Let_def push_fields split: option.splits)

lemma echoErrorBlock_bands:
  "correctness (echoErrorBlock (Some r) s) = correctness s + (if status r = 400 then 2 else 0)"
  "quality (echoErrorBlock (Some r) s)
     = quality s + (case json_body r of
                      Some j \<Rightarrow> if errorShape j then 2 else 0
                    | None \<Rightarrow> 0)"
  by (simp_all add: echoErrorBlock_def Let_def push_fields split: option.splits)

lemma reachable_net500: "reachable net500 url"
  by (simp add: reachable_settled settled_def net500_def REQ_TIMEOUT_MS_def)

lemma settled_net500:
  "settled net500 url [] REQ_TIMEOUT_MS = Some \<lparr>status = 500, json_body = None\<rparr>"
  by (simp add: settled_def net500_def REQ_TIMEOUT_MS_def)

text \<open>
  Claim C6. When the fetch of \<^verbatim>\<open>/echo?name=Ali&age=22\<close> gives status 200 with the
  JSON object whose keys are ok (true), name ("Ali"), age (22) and msg ("hi"), and the
  fetch of \<^verbatim>\<open>/echo?name=Ali\<close> gives status 400 with the JSON object whose keys are ok
  (false) and error ("missing age"), the echo group has completeness 8, correctness 4
  and quality 4, and its point total is 16.
\<close>

theorem echo_group_full_marks:
  assumes "fst (safeFetch nw (base @ ''/echo?name=Ali&age=22'') [] REQ_TIMEOUT_MS a) = Some r1"
    and "status r1 = 200"
    and "json_body r1 = Some (JObj kv1)"
    and "map_of kv1 = map_of [(''ok'', JBool True), (''name'', JStr ''Ali''),
                              (''age'', JNum 22), (''msg'', JStr ''hi'')]"
    and "fst (safeFetch nw (base @ ''/echo?name=Ali'') [] REQ_TIMEOUT_MS b) = Some r2"
    and "status r2 = 400"
    and "json_body r2 = Some (JObj kv2)"
    and "map_of kv2 = map_of [(''ok'', JBool False), (''error'', JStr ''missing age'')]"
  shows "completeness (fst (checkTodo2 nw base tr)) = 8
    \<and> correctness (fst (checkTodo2 nw base tr)) = 4
    \<and> quality (fst (checkTodo2 nw base tr)) = 4
    \<and> bandPoints (fst (checkTodo2 nw base tr)) = 16"
proof -
  from assms(1) have s1: "settled nw (base @ ''/echo?name=Ali&age=22'') [] REQ_TIMEOUT_MS = Some r1"
    by (simp add: safeFetch_eq)
  from assms(5) have s2: "settled nw (base @ ''/echo?name=Ali'') [] REQ_TIMEOUT_MS = Some r2"
    by (simp add: safeFetch_eq)
  have sh1: "echoSuccessShape (JObj kv1)"
    by (simp add: echoSuccessShape_def isString_def assms(4))
  have sh2: "errorShape (JObj kv2)"
    by (simp add: errorShape_def isString_def assms(8))
  have c: "completeness (fst (checkTodo2 nw base tr)) = 8"
    by (simp add: checkTodo2_eq s1 s2 capBands_fields echoSuccessBlock_completeness
        echoErrorBlock_completeness makeTodoScore_fields)
  have r: "correctness (fst (checkTodo2 nw base tr)) = 4"
    by (simp add: checkTodo2_eq s1 s2 capBands_fields echoSuccessBlock_bands
        echoErrorBlock_bands makeTodoScore_fields assms(2) assms(6))
  have q: "quality (fst (checkTodo2 nw base tr)) = 4"
    by (simp add: checkTodo2_eq s1 s2 capBands_fields echoSuccessBlock_bands
        echoErrorBlock_bands makeTodoScore_fields assms(3) assms(7) sh1 sh2)
  from c r q show ?thesis by (simp add: bandPoints_def clamp_def)
qed

theorem echo_group_full_marks_witness:
  "completeness (fst (checkTodo2 netEcho ''http://127.0.0.1:3000'' [])) = 8
   \<and> correctness (fst (checkTodo2 netEcho ''http://127.0.0.1:3000'' [])) = 4
   \<and> quality (fst (checkTodo2 netEcho ''http://127.0.0.1:3000'' [])) = 4
   \<and> bandPoints (fst (checkTodo2 netEcho ''http://127.0.0.1:3000'' [])) = 16"
proof -
  have f1: "fst (safeFetch netEcho (''http://127.0.0.1:3000'' @ ''/echo?name=Ali&age=22'') []
                  REQ_TIMEOUT_MS [])
      = Some \<lparr>status = 200, json_body = Some (JObj
             [(''ok'', JBool True), (''name'', JStr ''Ali''), (''age'', JNum 22),
              (''msg'', JStr ''hi'')])\<rparr>"
    by (simp add: safeFetch_eq settled_def netEcho_def REQ_TIMEOUT_MS_def)
  have f2: "fst (safeFetch netEcho (''http://127.0.0.1:3000'' @ ''/echo?name=Ali'') []
                  REQ_TIMEOUT_MS [])
      = Some \<lparr>status = 400, json_body = Some (JObj
             [(''ok'', JBool False), (''error'', JStr ''missing age'')])\<rparr>"
    by (simp add: safeFetch_eq settled_def netEcho_def REQ_TIMEOUT_MS_def)
  show ?thesis
    by (rule echo_group_full_marks [OF f1 _ _ refl f2 _ _ refl]) simp_all
qed

text \<open>
  Claim C7. In every group the completeness is fixed by which of its requests got a
  response: each reachable probe adds its full share (8 for the root, profile and
  valid-id probes, 4 for each of the two echo probes and each of the two invalid-id
  probes), whatever the status and the body of the response. Two servers that are
  reachable on the same URLs get the same completeness in every group.
\<close>

theorem completeness_follows_reachability:
  "(reachable nw url \<longleftrightarrow> (\<exists>res. fst (safeFetch nw url [] REQ_TIMEOUT_MS a) = Some res))
   \<and> completeness (fst (checkTodo1 nw base tr)) = (if reachable nw (base @ ''/'') then 8 else 0)
   \<and> completeness (fst (checkTodo2 nw base tr))
       = (if reachable nw (base @ ''/echo?name=Ali&age=22'') then 4 else 0)
         + (if reachable nw (base @ ''/echo?name=Ali'') then 4 else 0)
   \<and> completeness (fst (checkTodo3 nw base tr))
       = (if reachable nw (base @ ''/profile/Jack/Black'') then 8 else 0)
   \<and> completeness (fst (fst (checkTodo4and5 nw base tr)))
       = (if reachable nw (base @ ''/users/abc'') then 4 else 0)
         + (if reachable nw (base @ ''/users/-5'') then 4 else 0)
   \<and> completeness (snd (fst (checkTodo4and5 nw base tr)))
       = (if reachable nw (base @ ''/users/42'') then 8 else 0)
   \<and> ((\<forall>u. reachable nw u = reachable nw' u)
        \<longrightarrow> completeness (fst (checkTodo1 nw base tr)) = completeness (fst (checkTodo1 nw' base tr))
          \<and> completeness (fst (checkTodo2 nw base tr)) = completeness (fst (checkTodo2 nw' base tr))
          \<and> completeness (fst (checkTodo3 nw base tr)) = completeness (fst (checkTodo3 nw' base tr))
          \<and> completeness (fst (fst (checkTodo4and5 nw base tr)))
              = completeness (fst (fst (checkTodo4and5 nw' base tr)))
          \<and> completeness (snd (fst (checkTodo4and5 nw base tr)))
              = completeness (snd (fst (checkTodo4and5 nw' base tr))))"
proof -
  have r: "reachable nw url \<longleftrightarrow> (\<exists>res. fst (safeFetch nw url [] REQ_TIMEOUT_MS a) = Some res)"
    by (simp add: reachable_settled safeFetch_eq)
  have c1: "completeness (fst (checkTodo1 n base tr)) = (if reachable n (base @ ''/'') then 8 else 0)"
    for n
    by (simp add: checkTodo1_eq rootBlock_completeness reachable_settled makeTodoScore_fields)
  have c2: "completeness (fst (checkTodo2 n base tr))
       = (if reachable n (base @ ''/echo?name=Ali&age=22'') then 4 else 0)
         + (if reachable n (base @ ''/echo?name=Ali'') then 4 else 0)" for n
    by (simp add: checkTodo2_eq capBands_fields echoSuccessBlock_completeness
        echoErrorBlock_completeness reachable_settled makeTodoScore_fields)
  have c3: "completeness (fst (checkTodo3 n base tr))
       = (if reachable n (base @ ''/profile/Jack/Black'') then 8 else 0)" for n
    by (simp add: checkTodo3_eq profileBlock_completeness reachable_settled makeTodoScore_fields)
  have c4: "completeness (fst (fst (checkTodo4and5 n base tr)))
       = (if reachable n (base @ ''/users/abc'') then 4 else 0)
         + (if reachable n (base @ ''/users/-5'') then 4 else 0)" for n
    by (simp add: checkTodo4and5_eq capBands_fields nonNumericBlock_completeness
        negativeBlock_completeness reachable_settled makeTodoScore_fields)
  have c5: "completeness (snd (fst (checkTodo4and5 n base tr)))
       = (if reachable n (base @ ''/users/42'') then 8 else 0)" for n
    by (simp add: checkTodo4and5_eq capBands_fields validIdBlock_completeness
        reachable_settled makeTodoScore_fields)
  have same: "(\<forall>u. reachable nw u = reachable nw' u)
        \<longrightarrow> completeness (fst (checkTodo1 nw base tr)) = completeness (fst (checkTodo1 nw' base tr))
          \<and> completeness (fst (checkTodo2 nw base tr)) = completeness (fst (checkTodo2 nw' base tr))
          \<and> completeness (fst (checkTodo3 nw base tr)) = completeness (fst (checkTodo3 nw' base tr))
          \<and> completeness (fst (fst (checkTodo4and5 nw base tr)))
              = completeness (fst (fst (checkTodo4and5 nw' base tr)))
          \<and> completeness (snd (fst (checkTodo4and5 nw base tr)))
              = completeness (snd (fst (checkTodo4and5 nw' base tr)))"
    unfolding c1 c2 c3 c4 c5 by simp
  from r c1 [of nw] c2 [of nw] c3 [of nw] c4 [of nw] c5 [of nw] same show ?thesis
    by blast
qed

theorem completeness_follows_reachability_witness:
  "completeness (fst (checkTodo1 net500 ''http://127.0.0.1:3000'' [])) = 8
   \<and> correctness (fst (checkTodo1 net500 ''http://127.0.0.1:3000'' [])) = 0
   \<and> quality (fst (checkTodo1 net500 ''http://127.0.0.1:3000'' [])) = 0
   \<and> completeness (fst (checkTodo2 net500 ''http://127.0.0.1:3000'' [])) = 8
   \<and> correctness (fst (checkTodo2 net500 ''http://127.0.0.1:3000'' [])) = 0
   \<and> quality (fst (checkTodo2 net500 ''http://127.0.0.1:3000'' [])) = 0
   \<and> completeness (fst (checkTodo3 net500 ''http://127.0.0.1:3000'' [])) = 8
   \<and> completeness (fst (fst (checkTodo4and5 net500 ''http://127.0.0.1:3000'' []))) = 8
   \<and> completeness (snd (fst (checkTodo4and5 net500 ''http://127.0.0.1:3000'' []))) = 8"
proof -
  note t = completeness_follows_reachability
    [of net500 "''http://127.0.0.1:3000/''" "[]" "''http://127.0.0.1:3000''" "[]" net500]
  have c: "completeness (fst (checkTodo1 net500 ''http://127.0.0.1:3000'' [])) = 8
   \<and> completeness (fst (checkTodo2 net500 ''http://127.0.0.1:3000'' [])) = 8
   \<and> completeness (fst (checkTodo3 net500 ''http://127.0.0.1:3000'' [])) = 8
   \<and> completeness (fst (fst (checkTodo4and5 net500 ''http://127.0.0.1:3000'' []))) = 8
   \<and> completeness (snd (fst (checkTodo4and5 net500 ''http://127.0.0.1:3000'' []))) = 8"
    using t by (simp add: reachable_net500)
  have r1: "correctness (fst (checkTodo1 net500 ''http://127.0.0.1:3000'' [])) = 0
   \<and> quality (fst (checkTodo1 net500 ''http://127.0.0.1:3000'' [])) = 0"
    by (simp add: checkTodo1_eq settled_net500 rootBlock_def Let_def push_fields
        makeTodoScore_fields)
  have r2: "correctness (fst (checkTodo2 net500 ''http://127.0.0.1:3000'' [])) = 0
   \<and> quality (fst (checkTodo2 net500 ''http://127.0.0.1:3000'' [])) = 0"
    by (simp add: checkTodo2_eq settled_net500 capBands_fields echoSuccessBlock_bands
        echoErrorBlock_bands makeTodoScore_fields)
  from c r1 r2 show ?thesis by simp
qed

subsection \<open>A run of the script\<close>

lemma detectLabDir_eq:
  "detectLabDir e0 tr =
     (if entersSubLab e0 then
        if chdirOk e0 (SUB_LAB e0)
        then (Inr (e0\<lparr>LAB_DIR := SUB_LAB e0\<rparr>), tr @ [Chdir (SUB_LAB e0)])
        else (Inl (ChdirFailed (SUB_LAB e0)), tr)
      else (Inr (e0\<lparr>LAB_DIR := REPO_ROOT e0\<rparr>), tr))"
  by (simp add: detectLabDir_def chdir_def Let_def SUB_LAB_def entersSubLab_def)

lemma moduleLevel_eq:
  "moduleLevel e0 =
     (if entersSubLab e0 \<and> \<not> chdirOk e0 (SUB_LAB e0) then (Inl (ChdirFailed (SUB_LAB e0)), [])
      else if \<not> mkdirOk e0 (path_join (path_join (labDir e0) ''dist'') ''grading'')
      then (Inl (MkdirFailed (path_join (path_join (labDir e0) ''dist'') ''grading'')),
            if entersSubLab e0 then [Chdir (SUB_LAB e0)] else [])
      else (Inr (e0\<lparr>LAB_DIR := labDir e0\<rparr>,
                 path_join (path_join (labDir e0) ''dist'') ''grading''),
            (if entersSubLab e0 then [Chdir (SUB_LAB e0)] else [])
            @ [Mkdir (path_join (path_join (labDir e0) ''dist'') ''grading'')]))"
  by (simp add: moduleLevel_def detectLabDir_eq ensureOutDir_def Let_def labDir_def)

lemma moduleLevel_quiet:
  "killsOf (snd (moduleLevel e0)) = []" "requestsOf (snd (moduleLevel e0)) = []"
  "spawnsOf (snd (moduleLevel e0)) = []"
  by (simp_all add: moduleLevel_eq)

lemma labEnv_eq: "moduleLoads e \<Longrightarrow> labEnv e = e\<lparr>LAB_DIR := labDir e\<rparr>"
  by (auto simp: moduleLoads_def labEnv_def moduleLevel_eq split: if_splits)

lemma outDir_eq:
  "moduleLoads e \<Longrightarrow> outDir e = path_join (path_join (labDir e) ''dist'') ''grading''"
  by (auto simp: moduleLoads_def outDir_def moduleLevel_eq split: if_splits)

lemma moduleLoads_eq:
  "moduleLoads e \<longleftrightarrow>
     (entersSubLab e \<longrightarrow> chdirOk e (SUB_LAB e))
     \<and> mkdirOk e (path_join (path_join (labDir e) ''dist'') ''grading'')"
  by (simp add: moduleLoads_def moduleLevel_eq)

lemma labEnv_fields:
  "net (labEnv e) = net e" "writable (labEnv e) = writable e"
  "platform (labEnv e) = platform e" "delivered (labEnv e) = delivered e"
  "isLate (labEnv e) = isLate e" "GITHUB_STEP_SUMMARY (labEnv e) = GITHUB_STEP_SUMMARY e"
  by (simp_all add: labEnv_def moduleLevel_eq)

lemma script_unfold:
  "script e =
     (case fst (moduleLevel e) of
        Inl x \<Rightarrow> died x (snd (moduleLevel e))
      | Inr p \<Rightarrow>
          if spawnFailed (fst (started e))
          then died (SpawnFailed (usedCommand (fst (started e)))) (snd (started e))
          else if writable e (gradeJson e) then
            if writable e (gradeTxt e) then
              \<lparr>outcome = Inr (buildReport (labEnv e) (fst (started e)) (fst (discovery e))
                               (fst (probing e))),
               effects = cleanup (labEnv e) (fst (started e))
                 (publishSummary (labEnv e)
                   (snd (probing e)
                    @ [WriteFile (gradeJson e), WriteFile (gradeTxt e), ConsoleLog])),
               exitCode = 0\<rparr>
            else crashed (WriteFailed (gradeTxt e)) (snd (probing e) @ [WriteFile (gradeJson e)])
          else crashed (WriteFailed (gradeJson e)) (snd (probing e)))"
proof (cases "fst (moduleLevel e)")
  case (Inl x)
  then show ?thesis
    by (cases "moduleLevel e") (simp add: script_def)
next
  case (Inr p)
  obtain e1 out where p: "p = (e1, out)" by (cases p)
  obtain tr where m: "moduleLevel e = (Inr (e1, out), tr)"
    using Inr p by (cases "moduleLevel e") simp
  have l: "labEnv e = e1" "outDir e = out"
    by (simp_all add: labEnv_def outDir_def m)
  have f: "net e1 = net e" "writable e1 = writable e"
    using labEnv_fields [of e] l by simp_all
  show ?thesis
    unfolding script_def m
    by (simp add: main_def started_def discovery_def probing_def gradeJson_def gradeTxt_def
        writeFileSync_def Let_def l f m split: prod.splits)
qed

lemma startStudentApp_trace:
  "snd (startStudentApp e tr) = tr \<or> (\<exists>cmd args. snd (startStudentApp e tr) = tr @ [Spawn cmd args])"
  by (simp add: startStudentApp_def launch_def spawnAndWatch_def Let_def split: option.splits)

lemma startStudentApp_no_child:
  "child (fst (startStudentApp e tr)) = None \<Longrightarrow> snd (startStudentApp e tr) = tr"
  by (simp add: startStudentApp_def launch_def spawnAndWatch_def Let_def
      split: option.splits if_splits)

lemma started_quiet: "killsOf (snd (started e)) = [] \<and> requestsOf (snd (started e)) = []"
  using startStudentApp_trace [of "labEnv e" "snd (moduleLevel e)"] unfolding started_def
  by (auto simp: moduleLevel_quiet killsOf_append requestsOf_append)

lemma probePorts_kills: "killsOf (snd (probePorts nw ps tr)) = killsOf tr"
  by (induction ps arbitrary: tr)
     (simp_all add: safeFetch_eq killsOf_append killsOf_fetchEvents split: option.splits)

lemma probePorts_spawns: "spawnsOf (snd (probePorts nw ps tr)) = spawnsOf tr"
  by (induction ps arbitrary: tr)
     (simp_all add: safeFetch_eq spawnsOf_append spawnsOf_fetchEvents split: option.splits)

lemma runChecks_kills: "killsOf (snd (runChecks nw b tr)) = killsOf tr"
  by (simp add: runChecks_def checkTodo1_eq checkTodo2_eq checkTodo3_eq checkTodo4and5_eq
      killsOf_append killsOf_fetchEvents split: option.splits)

lemma runChecks_spawns: "spawnsOf (snd (runChecks nw b tr)) = spawnsOf tr"
  by (simp add: runChecks_def checkTodo1_eq checkTodo2_eq checkTodo3_eq checkTodo4and5_eq
      spawnsOf_append spawnsOf_fetchEvents split: option.splits)

lemma probing_kills: "killsOf (snd (probing e)) = []"
  by (simp add: probing_def discovery_def findBaseUrl_def runChecks_kills probePorts_kills
      started_quiet)

lemma probing_spawns: "spawnsOf (snd (probing e)) = spawnsOf (snd (started e))"
  by (simp add: probing_def discovery_def findBaseUrl_def runChecks_spawns probePorts_spawns)

lemma publishSummary_quiet:
  "killsOf (publishSummary e tr) = killsOf tr"
  "requestsOf (publishSummary e tr) = requestsOf tr"
  "spawnsOf (publishSummary e tr) = spawnsOf tr"
  by (simp_all add: publishSummary_def killsOf_append requestsOf_append spawnsOf_append
      split: option.splits)

lemma cleanup_posix:
  "child si = Some c \<Longrightarrow> pid c = Some n \<Longrightarrow> n \<noteq> 0 \<Longrightarrow> platform e \<noteq> ''win32'' \<Longrightarrow>
   cleanup e si tr = tr @ [Kill (- int n), Kill (int n)]"
  by (simp add: cleanup_def processKill_def)

lemma cleanup_win32:
  "child si = Some c \<Longrightarrow> pid c = Some n \<Longrightarrow> n \<noteq> 0 \<Longrightarrow> platform e = ''win32'' \<Longrightarrow>
   cleanup e si tr = tr @ [Spawn ''taskkill'' [''/pid'', show_nat n, ''/f'', ''/t'']]"
  by (simp add: cleanup_def)

lemma cleanup_no_child: "child si = None \<Longrightarrow> cleanup e si tr = tr"
  by (simp add: cleanup_def)

lemma cleanup_requests: "requestsOf (cleanup e si tr) = requestsOf tr"
  by (simp add: cleanup_def processKill_def requestsOf_append split: option.splits)

lemma script_exit_code:
  "exitCode (script e) = 0
     \<longleftrightarrow> reachesDiscovery e \<and> writable e (gradeJson e) \<and> writable e (gradeTxt e)"
  by (simp add: script_unfold reachesDiscovery_def moduleLoads_def died_def crashed_def
      split: sum.splits)

lemma script_requests:
  "reachesDiscovery e \<Longrightarrow> requestsOf (effects (script e)) = requestsOf (snd (probing e))"
  by (simp add: script_unfold reachesDiscovery_def moduleLoads_def crashed_def
      cleanup_requests publishSummary_quiet requestsOf_append split: sum.splits)

lemma buildReport_labEnv: "buildReport (labEnv e) si b sc = buildReport e si b sc"
  by (simp add: buildReport_def labEnv_fields)

lemma runChecks_null:
  "runChecks nw None tr =
     (\<lparr>t1 = \<lparr>completeness = 0, correctness = 0, quality = 0,
              todoNotes = [Plain ''Server not reachable; cannot run endpoint checks.'']\<rparr>,
       t2 = \<lparr>completeness = 0, correctness = 0, quality = 0,
              todoNotes = [Plain ''Server not reachable.'']\<rparr>,
       t3 = \<lparr>completeness = 0, correctness = 0, quality = 0,
              todoNotes = [Plain ''Server not reachable.'']\<rparr>,
       t4 = \<lparr>completeness = 0, correctness = 0, quality = 0,
              todoNotes = [Plain ''Server not reachable.'']\<rparr>,
       t5 = \<lparr>completeness = 0, correctness = 0, quality = 0,
              todoNotes = [Plain ''Server not reachable.'']\<rparr>\<rparr>, tr)"
  by (simp add: runChecks_def pushPlain_def makeTodoScore_def)

lemma bandPoints_zero:
  "bandPoints \<lparr>completeness = 0, correctness = 0, quality = 0, todoNotes = ns\<rparr> = 0"
  by (simp add: bandPoints_def clamp_def)

lemma script_outcome:
  "exitCode (script e) = 0 \<Longrightarrow>
   outcome (script e)
     = Inr (buildReport e (fst (started e)) (fst (discovery e)) (fst (probing e)))"
  by (simp add: script_unfold died_def crashed_def buildReport_labEnv
      split: sum.splits if_splits)

lemma script_exit_code_range: "exitCode (script e) = 0 \<or> exitCode (script e) = 1"
  by (simp add: script_unfold died_def crashed_def split: sum.splits)

lemma failed_spawn_dies:
  "moduleLoads e \<Longrightarrow> spawnFailed (fst (started e)) \<Longrightarrow>
   script e = died (SpawnFailed (usedCommand (fst (started e)))) (snd (started e))"
  by (simp add: script_unfold moduleLoads_def split: sum.splits)

lemma not_accepted_netDown: "\<not> accepted netDown q"
  by (simp add: accepted_settled settled_def netDown_def)

lemma discovery_netDown: "net e = netDown \<Longrightarrow> fst (discovery e) = None"
  by (simp add: discovery_def findBaseUrl_def probePorts_fst find_None_iff not_accepted_netDown)

lemma moduleLevel_envEmpty:
  "moduleLevel (envEmpty\<lparr>existsSync := ex, platform := pf, writable := wr\<rparr>)
     = (Inr (envEmpty\<lparr>existsSync := ex, platform := pf, writable := wr\<rparr>,
             ''/lab/dist/grading''), [Mkdir ''/lab/dist/grading''])"
  if "\<not> ex ''/lab/6-3-express-request-data''"
    and "\<not> ex ''/lab/6-3-express-request-data/server.js''"
  using that
  by (simp add: moduleLevel_eq entersSubLab_def labDir_def SUB_LAB_def path_join_def
      envEmpty_def)

lemma envEmpty_variants:
  "envEmpty = envEmpty\<lparr>existsSync := (\<lambda>file. False), platform := ''linux'',
                        writable := (\<lambda>file. True)\<rparr>"
  "envServer = envEmpty\<lparr>existsSync := (\<lambda>file. file = ''/lab/server.js''),
                         platform := ''linux'', writable := (\<lambda>file. True)\<rparr>"
  "envServerWin = envEmpty\<lparr>existsSync := (\<lambda>file. file = ''/lab/server.js''),
                            platform := ''win32'', writable := (\<lambda>file. True)\<rparr>"
  "envServerReadOnly = envEmpty\<lparr>existsSync := (\<lambda>file. file = ''/lab/server.js''),
                                 platform := ''linux'', writable := (\<lambda>file. False)\<rparr>"
  by (simp_all add: envServer_def envServerWin_def envServerReadOnly_def envEmpty_def)

lemma stages_envEmpty:
  "labEnv envEmpty = envEmpty" "moduleLoads envEmpty" "outDir envEmpty = ''/lab/dist/grading''"
  "started envEmpty = (noEntryInfo, [Mkdir ''/lab/dist/grading''])"
proof -
  have m: "moduleLevel envEmpty = (Inr (envEmpty, ''/lab/dist/grading''), [Mkdir ''/lab/dist/grading''])"
    using moduleLevel_envEmpty [where ex = "\<lambda>file. False" and pf = "''linux''"
        and wr = "\<lambda>file. True"]
    by (simp add: envEmpty_variants(1) [symmetric])
  have s: "startStudentApp envEmpty tr = (noEntryInfo, tr)" for tr
    using find_envEmpty hasStart_envEmpty
    by (simp add: startStudentApp_def launch_def noEntryInfo_def envEmpty_def)
  show l: "labEnv envEmpty = envEmpty"
    by (simp add: labEnv_def m)
  show "moduleLoads envEmpty" "outDir envEmpty = ''/lab/dist/grading''"
    by (simp_all add: moduleLoads_def outDir_def m)
  show "started envEmpty = (noEntryInfo, [Mkdir ''/lab/dist/grading''])"
    by (simp add: started_def l m s)
qed

lemma stages_envServer:
  fixes pf wr
  defines "e \<equiv> envEmpty\<lparr>existsSync := (\<lambda>file. file = ''/lab/server.js''), platform := pf,
                          writable := wr\<rparr>"
  shows "labEnv e = e" "moduleLoads e" "outDir e = ''/lab/dist/grading''"
    "started e
      = (\<lparr>child = Some \<lparr>pid = Some 4242\<rparr>, stdoutBuf = [], stderrBuf = [], detectedPort = None,
          usedCommand = ''node server.js''\<rparr>,
         [Mkdir ''/lab/dist/grading'', Spawn ''/usr/bin/node'' [''/lab/server.js'']])"
    "net e = netDown"
proof -
  have m: "moduleLevel e = (Inr (e, ''/lab/dist/grading''), [Mkdir ''/lab/dist/grading''])"
    unfolding e_def by (rule moduleLevel_envEmpty) simp_all
  have s: "startStudentApp e tr
      = (\<lparr>child = Some \<lparr>pid = Some 4242\<rparr>, stdoutBuf = [], stderrBuf = [], detectedPort = None,
          usedCommand = ''node server.js''\<rparr>,
         tr @ [Spawn ''/usr/bin/node'' [''/lab/server.js'']])" for tr
    by (simp add: e_def startStudentApp_def launch_def spawnAndWatch_def envEmpty_def
        ENTRY_CANDIDATES_def path_join_def)
  show l: "labEnv e = e"
    by (simp add: labEnv_def m)
  show "moduleLoads e" "outDir e = ''/lab/dist/grading''"
    by (simp_all add: moduleLoads_def outDir_def m)
  show "started e
      = (\<lparr>child = Some \<lparr>pid = Some 4242\<rparr>, stdoutBuf = [], stderrBuf = [], detectedPort = None,
          usedCommand = ''node server.js''\<rparr>,
         [Mkdir ''/lab/dist/grading'', Spawn ''/usr/bin/node'' [''/lab/server.js'']])"
    by (simp add: started_def l m s)
  show "net e = netDown" by (simp add: e_def envEmpty_def)
qed

lemma run_envServer:
  fixes pf wr
  defines "e \<equiv> envEmpty\<lparr>existsSync := (\<lambda>file. file = ''/lab/server.js''), platform := pf,
                          writable := wr\<rparr>"
  shows "reachesDiscovery e" "fst (discovery e) = None"
    "child (fst (started e)) = Some \<lparr>pid = Some 4242\<rparr>"
    "spawnsOf (snd (started e)) = [(''/usr/bin/node'', [''/lab/server.js''])]"
    "gradeJson e = ''/lab/dist/grading/grade.json''"
    "gradeTxt e = ''/lab/dist/grading/grade.txt''"
    "writable e = wr" "platform e = pf"
proof -
  note st = stages_envServer [where pf = pf and wr = wr, folded e_def]
  show "reachesDiscovery e"
    by (simp add: reachesDiscovery_def st spawnFailed_def)
  show "fst (discovery e) = None"
    by (rule discovery_netDown) (rule st)
  show "child (fst (started e)) = Some \<lparr>pid = Some 4242\<rparr>"
    "spawnsOf (snd (started e)) = [(''/usr/bin/node'', [''/lab/server.js''])]"
    by (simp_all add: st)
  show "gradeJson e = ''/lab/dist/grading/grade.json''"
    "gradeTxt e = ''/lab/dist/grading/grade.txt''"
    by (simp_all add: gradeJson_def gradeTxt_def st path_join_def)
  show "writable e = wr" "platform e = pf"
    by (simp_all add: e_def)
qed

lemma run_envEmpty:
  "reachesDiscovery envEmpty" "fst (discovery envEmpty) = None"
  "child (fst (started envEmpty)) = None"
  "writable envEmpty (gradeJson envEmpty)" "writable envEmpty (gradeTxt envEmpty)"
proof -
  show "reachesDiscovery envEmpty" "child (fst (started envEmpty)) = None"
    by (simp_all add: reachesDiscovery_def stages_envEmpty spawnFailed_def noEntryInfo_def)
  show "fst (discovery envEmpty) = None"
    by (rule discovery_netDown) (simp add: envEmpty_def)
  show "writable envEmpty (gradeJson envEmpty)" "writable envEmpty (gradeTxt envEmpty)"
    by (simp_all add: envEmpty_def)
qed

lemma before_cleanup_kills:
  "killsOf (publishSummary e' (snd (probing e) @ evs)) = killsOf evs"
  by (simp add: publishSummary_quiet killsOf_append probing_kills)

lemma script_effects:
  "exitCode (script e) = 0 \<Longrightarrow>
   effects (script e)
     = cleanup (labEnv e) (fst (started e))
         (publishSummary (labEnv e)
           (snd (probing e) @ [WriteFile (gradeJson e), WriteFile (gradeTxt e), ConsoleLog]))"
  by (simp add: script_unfold died_def crashed_def split: sum.splits if_splits)

text \<open>
  Claim C5, as the code has it. In a run that reaches discovery and in which discovery
  returns the null base URL, no probe group fetches anything: the probing stage leaves
  the trace as discovery left it, and the only requests of the whole run are those of
  discovery. Each of the five scores is the zero score with one not-reachable note,
  every group total is 0 and the lab total is 0. The run ends with the report and exit
  code 0 exactly when both report files can be written; otherwise it ends with exit
  code 1.
\<close>

theorem null_base_url_scores_zero:
  assumes "reachesDiscovery e" and "fst (discovery e) = None"
  shows "runChecks nw None tr =
     (\<lparr>t1 = \<lparr>completeness = 0, correctness = 0, quality = 0,
              todoNotes = [Plain ''Server not reachable; cannot run endpoint checks.'']\<rparr>,
       t2 = \<lparr>completeness = 0, correctness = 0, quality = 0,
              todoNotes = [Plain ''Server not reachable.'']\<rparr>,
       t3 = \<lparr>completeness = 0, correctness = 0, quality = 0,
              todoNotes = [Plain ''Server not reachable.'']\<rparr>,
       t4 = \<lparr>completeness = 0, correctness = 0, quality = 0,
              todoNotes = [Plain ''Server not reachable.'']\<rparr>,
       t5 = \<lparr>completeness = 0, correctness = 0, quality = 0,
              todoNotes = [Plain ''Server not reachable.'']\<rparr>\<rparr>, tr)
    \<and> probing e = runChecks (net e) None (snd (discovery e))
    \<and> snd (probing e) = snd (discovery e)
    \<and> requestsOf (effects (script e)) = requestsOf (snd (discovery e))
    \<and> per_todo (buildReport e (fst (started e)) (fst (discovery e)) (fst (probing e)))
        = [0, 0, 0, 0, 0]
    \<and> lab_points (buildReport e (fst (started e)) (fst (discovery e)) (fst (probing e))) = 0
    \<and> (exitCode (script e) = 0 \<longleftrightarrow> writable e (gradeJson e) \<and> writable e (gradeTxt e))
    \<and> (writable e (gradeJson e) \<and> writable e (gradeTxt e)
        \<longrightarrow> outcome (script e)
              = Inr (buildReport e (fst (started e)) (fst (discovery e)) (fst (probing e))))
    \<and> (\<not> (writable e (gradeJson e) \<and> writable e (gradeTxt e)) \<longrightarrow> exitCode (script e) = 1)"
proof -
  have p: "probing e = runChecks (net e) None (snd (discovery e))"
    by (simp add: probing_def assms(2))
  have tr: "snd (probing e) = snd (discovery e)"
    unfolding p by (simp add: runChecks_null)
  have rq: "requestsOf (effects (script e)) = requestsOf (snd (discovery e))"
    using assms(1) by (simp add: script_requests tr)
  have pt: "per_todo (buildReport e (fst (started e)) (fst (discovery e)) (fst (probing e)))
        = [0, 0, 0, 0, 0]"
    unfolding p by (simp add: buildReport_def runChecks_null bandPoints_zero Let_def)
  have lp: "lab_points (buildReport e (fst (started e)) (fst (discovery e)) (fst (probing e))) = 0"
    unfolding p
    by (simp add: buildReport_def runChecks_null bandPoints_zero Let_def labPoints_def
        rawLabPoints_def someProgress_def)
  have x: "exitCode (script e) = 0 \<longleftrightarrow> writable e (gradeJson e) \<and> writable e (gradeTxt e)"
    using assms(1) by (simp add: script_exit_code)
  have fin: "writable e (gradeJson e) \<and> writable e (gradeTxt e)
        \<longrightarrow> outcome (script e)
              = Inr (buildReport e (fst (started e)) (fst (discovery e)) (fst (probing e)))"
    using x script_outcome [of e] by blast
  have crash: "\<not> (writable e (gradeJson e) \<and> writable e (gradeTxt e)) \<longrightarrow> exitCode (script e) = 1"
    using x script_exit_code_range [of e] by auto
  from runChecks_null [of nw tr] p tr rq pt lp x fin crash show ?thesis by blast
qed

theorem null_base_url_scores_zero_witness:
  "reachesDiscovery envEmpty
   \<and> fst (discovery envEmpty) = None
   \<and> snd (probing envEmpty) = snd (discovery envEmpty)
   \<and> requestsOf (effects (script envEmpty)) = requestsOf (snd (discovery envEmpty))
   \<and> lab_points (buildReport envEmpty (fst (started envEmpty)) (fst (discovery envEmpty))
        (fst (probing envEmpty))) = 0
   \<and> outcome (script envEmpty)
       = Inr (buildReport envEmpty (fst (started envEmpty)) (fst (discovery envEmpty))
               (fst (probing envEmpty)))
   \<and> exitCode (script envEmpty) = 0"
  using null_base_url_scores_zero [OF run_envEmpty(1) run_envEmpty(2), of netDown "[]"]
    run_envEmpty
  by blast

text \<open>
  The claim has every run with a null base URL complete without crashing. Where the
  report files cannot be written, discovery returns null and the run ends in the
  handler of lines 470 to 473, with exit code 1 and the failed write as its outcome.
\<close>

theorem null_base_url_crash_counterexample:
  "reachesDiscovery envServerReadOnly
   \<and> fst (discovery envServerReadOnly) = None
   \<and> exitCode (script envServerReadOnly) = 1
   \<and> outcome (script envServerReadOnly) = Inl (WriteFailed ''/lab/dist/grading/grade.json'')"
proof -
  note r = run_envServer [where pf = "''linux''" and wr = "\<lambda>file. False",
      folded envEmpty_variants(4)]
  have x: "exitCode (script envServerReadOnly) \<noteq> 0"
    by (simp add: script_exit_code r)
  then have x1: "exitCode (script envServerReadOnly) = 1"
    using script_exit_code_range [of envServerReadOnly] by simp
  have l: "moduleLoads envServerReadOnly" "\<not> spawnFailed (fst (started envServerReadOnly))"
    using r(1) by (simp_all add: reachesDiscovery_def)
  have o: "outcome (script envServerReadOnly) = Inl (WriteFailed ''/lab/dist/grading/grade.json'')"
    using l by (simp add: script_unfold moduleLoads_def crashed_def r split: sum.splits)
  from r(1) r(2) x1 o show ?thesis by simp
qed

text \<open>
  Claim C9, as the code has it. A run ends with exit code 0 exactly when it reaches
  discovery and both report files are written; these are the runs that reach the
  cleanup block. In such a run a spawned child has a process id, and: on a platform
  other than win32 the last two events of the run are the signal to the process group
  and the signal to the process id, in that order, whether or not either is delivered,
  and no signal was sent before; on win32 the last event is the spawning of
  \<^verbatim>\<open>taskkill\<close> and no signal is sent; if the launcher found no entry, nothing is
  signalled and nothing was spawned. Nothing is stated here about a run that ends with
  another exit code.
\<close>

theorem cleanup_after_report:
  "(exitCode (script e) = 0
      \<longleftrightarrow> reachesDiscovery e \<and> writable e (gradeJson e) \<and> writable e (gradeTxt e))
   \<and> (exitCode (script e) = 0 \<longrightarrow>
        (child (fst (started e)) = Some c \<longrightarrow> pid c \<noteq> None)
        \<and> (child (fst (started e)) = Some c \<and> pid c = Some n \<and> n \<noteq> 0
            \<and> platform e \<noteq> ''win32''
            \<longrightarrow> (\<exists>pre. effects (script e) = pre @ [Kill (- int n), Kill (int n)]
                       \<and> killsOf pre = []))
        \<and> (child (fst (started e)) = Some c \<and> pid c = Some n \<and> n \<noteq> 0
            \<and> platform e = ''win32''
            \<longrightarrow> (\<exists>pre. effects (script e)
                        = pre @ [Spawn ''taskkill'' [''/pid'', show_nat n, ''/f'', ''/t'']]
                      \<and> killsOf pre = [])
                \<and> killsOf (effects (script e)) = [])
        \<and> (child (fst (started e)) = None
            \<longrightarrow> killsOf (effects (script e)) = [] \<and> spawnsOf (effects (script e)) = []))"
proof -
  let ?pre = "publishSummary (labEnv e)
      (snd (probing e) @ [WriteFile (gradeJson e), WriteFile (gradeTxt e), ConsoleLog])"
  have quiet: "killsOf ?pre = []"
    by (simp add: before_cleanup_kills)
  have rest: "(child (fst (started e)) = Some c \<longrightarrow> pid c \<noteq> None)
        \<and> (child (fst (started e)) = Some c \<and> pid c = Some n \<and> n \<noteq> 0
            \<and> platform e \<noteq> ''win32''
            \<longrightarrow> (\<exists>pre. effects (script e) = pre @ [Kill (- int n), Kill (int n)]
                       \<and> killsOf pre = []))
        \<and> (child (fst (started e)) = Some c \<and> pid c = Some n \<and> n \<noteq> 0
            \<and> platform e = ''win32''
            \<longrightarrow> (\<exists>pre. effects (script e)
                        = pre @ [Spawn ''taskkill'' [''/pid'', show_nat n, ''/f'', ''/t'']]
                      \<and> killsOf pre = [])
                \<and> killsOf (effects (script e)) = [])
        \<and> (child (fst (started e)) = None
            \<longrightarrow> killsOf (effects (script e)) = [] \<and> spawnsOf (effects (script e)) = [])"
    if fin: "exitCode (script e) = 0"
  proof -
    have eff: "effects (script e) = cleanup (labEnv e) (fst (started e)) ?pre"
      using fin by (rule script_effects)
    from fin have "\<not> spawnFailed (fst (started e))"
      by (simp add: script_exit_code reachesDiscovery_def)
    then have haspid: "child (fst (started e)) = Some c \<longrightarrow> pid c \<noteq> None"
      by (auto simp: spawnFailed_def)
    have posix: "child (fst (started e)) = Some c \<and> pid c = Some n \<and> n \<noteq> 0
            \<and> platform e \<noteq> ''win32''
            \<longrightarrow> (\<exists>pre. effects (script e) = pre @ [Kill (- int n), Kill (int n)]
                       \<and> killsOf pre = [])"
      using eff quiet cleanup_posix [of "fst (started e)" c n "labEnv e" ?pre]
      by (auto simp: labEnv_fields)
    have win: "child (fst (started e)) = Some c \<and> pid c = Some n \<and> n \<noteq> 0
            \<and> platform e = ''win32''
            \<longrightarrow> (\<exists>pre. effects (script e)
                        = pre @ [Spawn ''taskkill'' [''/pid'', show_nat n, ''/f'', ''/t'']]
                      \<and> killsOf pre = [])
                \<and> killsOf (effects (script e)) = []"
      using eff quiet cleanup_win32 [of "fst (started e)" c n "labEnv e" ?pre]
      by (auto simp: labEnv_fields killsOf_append)
    have nochild: "child (fst (started e)) = None
            \<longrightarrow> killsOf (effects (script e)) = [] \<and> spawnsOf (effects (script e)) = []"
    proof
      assume n: "child (fst (started e)) = None"
      then have c: "cleanup (labEnv e) (fst (started e)) ?pre = ?pre"
        by (rule cleanup_no_child)
      from n have "snd (started e) = snd (moduleLevel e)"
        unfolding started_def by (rule startStudentApp_no_child)
      then have "spawnsOf ?pre = []"
        by (simp add: publishSummary_quiet spawnsOf_append probing_spawns moduleLevel_quiet)
      with eff c quiet show "killsOf (effects (script e)) = [] \<and> spawnsOf (effects (script e)) = []"
        by simp
    qed
    from haspid posix win nochild show ?thesis by blast
  qed
  with script_exit_code [of e] show ?thesis by blast
qed

theorem cleanup_after_report_witness:
  "exitCode (script envServer) = 0
   \<and> killsOf (effects (script envServer)) = [- 4242, 4242]
   \<and> delivered envServer (- 4242) = False
   \<and> exitCode (script envEmpty) = 0
   \<and> killsOf (effects (script envEmpty)) = []
   \<and> spawnsOf (effects (script envEmpty)) = []"
proof -
  note r = run_envServer [where pf = "''linux''" and wr = "\<lambda>file. True",
      folded envEmpty_variants(2)]
  note s = cleanup_after_report [of envServer "\<lparr>pid = Some 4242\<rparr>" 4242]
  note z = cleanup_after_report [of envEmpty "\<lparr>pid = Some 4242\<rparr>" 4242]
  from s have x: "exitCode (script envServer) = 0"
    by (simp add: r)
  from s x r(3) obtain pre where
    "effects (script envServer) = pre @ [Kill (- int 4242), Kill (int 4242)]" "killsOf pre = []"
    by (auto simp: r(8))
  then have k: "killsOf (effects (script envServer)) = [- 4242, 4242]"
    by (simp add: killsOf_append)
  from z have x0: "exitCode (script envEmpty) = 0"
    by (simp add: run_envEmpty)
  from z x0 run_envEmpty(3)
  have n: "killsOf (effects (script envEmpty)) = [] \<and> spawnsOf (effects (script envEmpty)) = []"
    by simp
  from x k x0 n show ?thesis by (simp add: envServer_def envEmpty_def)
qed

text \<open>
  The claim has the two signals sent in every run with a spawned child. On win32 a run
  with a spawned child ends normally without any signal; and when the first report file
  cannot be written, the handler of lines 470 to 473 ends the run with exit code 1, the
  child spawned and no signal sent.
\<close>

theorem cleanup_signals_counterexample:
  "child (fst (started envServerWin)) = Some \<lparr>pid = Some 4242\<rparr>
   \<and> exitCode (script envServerWin) = 0
   \<and> killsOf (effects (script envServerWin)) = []
   \<and> child (fst (started envServerReadOnly)) = Some \<lparr>pid = Some 4242\<rparr>
   \<and> exitCode (script envServerReadOnly) = 1
   \<and> killsOf (effects (script envServerReadOnly)) = []
   \<and> spawnsOf (effects (script envServerReadOnly)) = [(''/usr/bin/node'', [''/lab/server.js''])]"
proof -
  note w = run_envServer [where pf = "''win32''" and wr = "\<lambda>file. True",
      folded envEmpty_variants(3)]
  note r = run_envServer [where pf = "''linux''" and wr = "\<lambda>file. False",
      folded envEmpty_variants(4)]
  have xw: "exitCode (script envServerWin) = 0"
    by (simp add: script_exit_code w)
  have pw: "pid \<lparr>pid = Some 4242\<rparr> = Some 4242" and nz: "(4242::nat) \<noteq> 0"
    by simp_all
  have pfw: "platform (labEnv envServerWin) = ''win32''"
    by (simp add: labEnv_fields w)
  have kw: "killsOf (effects (script envServerWin)) = []"
    unfolding script_effects [OF xw] cleanup_win32 [OF w(3) pw nz pfw]
    by (simp add: killsOf_append before_cleanup_kills)
  have l: "moduleLoads envServerReadOnly" "\<not> spawnFailed (fst (started envServerReadOnly))"
    using r(1) by (simp_all add: reachesDiscovery_def)
  have mr: "script envServerReadOnly
      = crashed (WriteFailed (gradeJson envServerReadOnly)) (snd (probing envServerReadOnly))"
    using l by (simp add: script_unfold moduleLoads_def r split: sum.splits)
  have kr: "killsOf (effects (script envServerReadOnly)) = []"
    unfolding mr by (simp add: crashed_def killsOf_append probing_kills)
  have pr: "spawnsOf (effects (script envServerReadOnly))
      = [(''/usr/bin/node'', [''/lab/server.js''])]"
    unfolding mr by (simp add: crashed_def spawnsOf_append probing_spawns r)
  have xr: "exitCode (script envServerReadOnly) = 1"
    unfolding mr by (simp add: crashed_def)
  from w(3) xw kw r(3) xr kr pr show ?thesis by simp
qed

end
